theory Spec2Isabelle
  imports Complex_Main
begin

section \<open>The gaze-mapping recording processor (pl\_processRecording.py)\<close>

text \<open>
  A shallow embedding of \<^verbatim>\<open>processFrame\<close>, \<^verbatim>\<open>createHeatmap\<close> and the frame loop of
  \<^verbatim>\<open>processRecording\<close>.

  Conventions of the embedding:
  \<^item> An exception is a value \<open>Inl e\<close> of the result type \<open>py_error + 'a\<close>; every call
    that the source leaves outside a \<^verbatim>\<open>try\<close> propagates it.
  \<^item> The methods of the \<^verbatim>\<open>GazeMapper\<close> object (imported from \<^verbatim>\<open>pl_gazeMappingTools\<close>) are
    parameters: a record of functions, each of which may raise.
  \<^item> The OpenCV and plotting calls are parameters too (record \<open>extlib\<close>). The colour
    conversions, \<^verbatim>\<open>undistort\<close> and the drawing primitives are taken as total on images;
    the kernel-density plot may raise.
  \<^item> Images are values. The source draws in place, but only ever on a fresh copy
    (\<^verbatim>\<open>origFrame.copy()\<close>, the array read back from the figure canvas), so an in-place
    drawing call is the function from the old picture to the new one. For
    \<^verbatim>\<open>processFrame\<close> this is proved: a second model keeps the arrays in a store, with
    copies and in-place drawing as the source has them, and returns the same pictures.
  \<^item> Floating-point numbers are idealised as reals; rounding, NaN and infinities are
    not modelled.
  \<^item> A pandas DataFrame is the list of its rows in order; each row carries its index
    label.
\<close>

subsection \<open>Data\<close>

datatype py_error = IndexError | KeyError | UnboundLocalError | ExternalError string

record image =
  shape0 :: nat
  shape1 :: nat
  pixels :: "nat list"

type_synonym point2 = "real \<times> real"
type_synonym vec3 = "real \<times> real \<times> real"
type_synonym homography = "real list"
type_synonym colour = "nat \<times> nat \<times> nat"
type_synonym descriptors = "nat list list"

text \<open>One row of \<^verbatim>\<open>gazeWorld_df\<close>; \<open>world_index\<close> is its column \<^verbatim>\<open>'index'\<close>, the
  frame the sample belongs to.\<close>

record gaze_row =
  row_label :: nat
  world_index :: nat
  timestamp :: real
  confidence :: real
  norm_pos_x :: real
  norm_pos_y :: real

text \<open>One row of a \<^verbatim>\<open>gazeData_df\<close> (and of \<^verbatim>\<open>gazeData_master\<close>).\<close>

record mapped_gaze =
  df_label :: nat
  gaze_ts :: real
  worldFrame :: nat
  gaze_confidence :: real
  frame_gazeX :: real
  frame_gazeY :: real
  ref_gazeX :: real
  ref_gazeY :: real
  obj_gazeX :: real
  obj_gazeY :: real
  obj_gazeZ :: real

text \<open>The \<^verbatim>\<open>GazeMapper\<close> object as far as this file uses it. A match-point array is
  \<open>Some\<close> list of points, or \<open>None\<close>.\<close>

record mapper =
  refImgColor :: image
  findFeatures :: "image \<Rightarrow> py_error + (point2 list \<times> descriptors)"
  findMatches :: "point2 list \<Rightarrow> descriptors
                   \<Rightarrow> py_error + (point2 list option \<times> point2 list option)"
  PnP_3Dmapping :: "point2 list \<Rightarrow> point2 list option \<Rightarrow> py_error + (vec3 \<times> vec3)"
  getCameraPosition :: "vec3 \<Rightarrow> vec3 \<Rightarrow> py_error + (vec3 \<times> vec3)"
  get2Dmapping :: "point2 list \<Rightarrow> point2 list option
                    \<Rightarrow> py_error + (homography \<times> homography)"
  mapCoords2D :: "point2 \<Rightarrow> homography \<Rightarrow> py_error + point2"
  ref2obj :: "point2 \<Rightarrow> py_error + vec3"
  projectImage2D :: "image \<Rightarrow> homography \<Rightarrow> image \<Rightarrow> py_error + image"

text \<open>The library calls: \<^verbatim>\<open>cv2.cvtColor\<close>, \<^verbatim>\<open>cv2.undistort\<close>, \<^verbatim>\<open>cv2.circle\<close> (filled),
  \<^verbatim>\<open>cv2.line\<close>, and \<open>kdeplot\<close> for lines 376 to 406 of the source: the figure over the
  RGB reference image, the seaborn density plot of the two coordinate arrays, and
  the canvas read back as an array.\<close>

record extlib =
  cvtColor_BGR2GRAY :: "image \<Rightarrow> image"
  cvtColor_BGR2RGB :: "image \<Rightarrow> image"
  undistort :: "real list \<Rightarrow> real list \<Rightarrow> image \<Rightarrow> image"
  circle :: "image \<Rightarrow> int \<times> int \<Rightarrow> nat \<Rightarrow> colour \<Rightarrow> image"
  line :: "image \<Rightarrow> int \<times> int \<Rightarrow> int \<times> int \<Rightarrow> colour \<Rightarrow> nat \<Rightarrow> image"
  kdeplot :: "image \<Rightarrow> nat \<Rightarrow> nat \<Rightarrow> real list \<Rightarrow> real list \<Rightarrow> py_error + image"

text \<open>The dictionary \<^verbatim>\<open>fr\<close> that \<^verbatim>\<open>processFrame\<close> returns. The keys set on every path are
  plain fields; the keys set only for a good match are optional. The two array-valued
  keys hold an \<open>'img\<close>: the picture itself, or its address where the arrays live in
  a store.\<close>

record 'img frame_info =
  frameNum :: nat
  origFrame :: 'img
  frame_ts :: real
  gazeFrame :: 'img
  foundGoodMatch :: bool
  camPosition :: "vec3 option"
  camOrientation :: "vec3 option"
  ref2frame_2Dtrans :: "homography option"
  frame2ref_2Dtrans :: "homography option"
  gazeData :: "mapped_gaze list option"

subsection \<open>processFrame\<close>

text \<open>Python's \<^verbatim>\<open>int\<close> on a float truncates towards zero.\<close>

definition py_int :: "real \<Rightarrow> int" where
  "py_int x = (if 0 \<le> x then \<lfloor>x\<rfloor> else \<lceil>x\<rceil>)"

text \<open>Lines 253 to 267: \<^verbatim>\<open>ref_matchPts.shape[0]\<close> inside \<^verbatim>\<open>try\<close>; on \<^verbatim>\<open>None\<close> the attribute
  access raises and the bare \<^verbatim>\<open>except\<close> sets the flag to false.\<close>

definition sufficientMatches :: "point2 list option \<Rightarrow> bool" where
  "sufficientMatches ref_matchPts =
     (case ref_matchPts of
        None \<Rightarrow> False
      | Some pts \<Rightarrow> (let numMatches = length pts in if 10 < numMatches then True else False))"

text \<open>Lines 315 to 339: the loop over the gaze rows of the frame, appending one mapped
  row per sample to \<^verbatim>\<open>gazeData_df\<close>.\<close>

fun mapGazeRows :: "mapper \<Rightarrow> nat \<Rightarrow> image \<Rightarrow> homography \<Rightarrow> mapped_gaze list
                     \<Rightarrow> gaze_row list \<Rightarrow> py_error + mapped_gaze list" where
  "mapGazeRows m frameCounter frame_gray frame2ref_2D gazeData_df [] = Inr gazeData_df"
| "mapGazeRows m frameCounter frame_gray frame2ref_2D gazeData_df (gazeRow # rest) =
     (let ts = timestamp gazeRow;
          frameNum = frameCounter;
          conf = confidence gazeRow;
          fx = norm_pos_x gazeRow * real (shape1 frame_gray);
          fy = real (shape0 frame_gray) - (norm_pos_y gazeRow * real (shape0 frame_gray))
      in case mapCoords2D m (fx, fy) frame2ref_2D of
           Inl e \<Rightarrow> Inl e
         | Inr (rx, ry) \<Rightarrow>
             (case ref2obj m (rx, ry) of
                Inl e \<Rightarrow> Inl e
              | Inr (ox, oy, oz) \<Rightarrow>
                  mapGazeRows m frameCounter frame_gray frame2ref_2D
                    (gazeData_df @
                      [\<lparr>df_label = row_label gazeRow, gaze_ts = ts, worldFrame = frameNum,
                        gaze_confidence = conf, frame_gazeX = fx, frame_gazeY = fy,
                        ref_gazeX = rx, ref_gazeY = ry,
                        obj_gazeX = ox, obj_gazeY = oy, obj_gazeZ = oz\<rparr>])
                    rest))"

text \<open>Lines 345 to 354: one filled circle per mapped row, the row with the largest
  index label in another colour and radius.\<close>

definition drawGazePts :: "extlib \<Rightarrow> mapped_gaze list \<Rightarrow> image \<Rightarrow> image" where
  "drawGazePts cv gazeData_df canvas =
     foldl (\<lambda>img row.
        if df_label row = Max (set (map df_label gazeData_df))
        then circle cv img (py_int (frame_gazeX row), py_int (frame_gazeY row)) 10 (96, 52, 234)
        else circle cv img (py_int (frame_gazeX row), py_int (frame_gazeY row)) 8 (168, 231, 86))
      canvas gazeData_df"

definition processFrame ::
  "extlib \<Rightarrow> nat \<Rightarrow> image \<Rightarrow> mapper \<Rightarrow> gaze_row list \<Rightarrow> real list
     \<Rightarrow> py_error + image frame_info" where
  "processFrame cv frameCounter frame m thisFrame_gazeData_world frame_timestamps =
     (let orig = frame;
          frame_gray = cvtColor_BGR2GRAY cv frame
      in if length frame_timestamps \<le> frameCounter then Inl IndexError
         else
           let ts = frame_timestamps ! frameCounter
           in case findFeatures m frame_gray of
                Inl e \<Rightarrow> Inl e
              | Inr (frame_kp, frame_des) \<Rightarrow>
                  (case (if length frame_kp < 2 then Inr (None, None)
                         else findMatches m frame_kp frame_des) of
                     Inl e \<Rightarrow> Inl e
                   | Inr (ref_matchPts, frame_matchPts) \<Rightarrow>
                       if \<not> sufficientMatches ref_matchPts
                       then Inr \<lparr>frameNum = frameCounter, origFrame = orig, frame_ts = ts,
                                 gazeFrame = orig, foundGoodMatch = False,
                                 camPosition = None, camOrientation = None,
                                 ref2frame_2Dtrans = None, frame2ref_2Dtrans = None,
                                 gazeData = None\<rparr>
                       else
                         (case PnP_3Dmapping m (the ref_matchPts) frame_matchPts of
                            Inl e \<Rightarrow> Inl e
                          | Inr (rvec, tvec) \<Rightarrow>
                          (case getCameraPosition m rvec tvec of
                            Inl e \<Rightarrow> Inl e
                          | Inr (camPos, camOri) \<Rightarrow>
                          (case get2Dmapping m (the ref_matchPts) frame_matchPts of
                            Inl e \<Rightarrow> Inl e
                          | Inr (ref2frame_2D, frame2ref_2D) \<Rightarrow>
                              if thisFrame_gazeData_world = []
                              then Inr \<lparr>frameNum = frameCounter, origFrame = orig,
                                        frame_ts = ts, gazeFrame = orig,
                                        foundGoodMatch = True,
                                        camPosition = Some camPos,
                                        camOrientation = Some camOri,
                                        ref2frame_2Dtrans = Some ref2frame_2D,
                                        frame2ref_2Dtrans = Some frame2ref_2D,
                                        gazeData = Some []\<rparr>
                              else
                                (case mapGazeRows m frameCounter frame_gray frame2ref_2D []
                                        thisFrame_gazeData_world of
                                   Inl e \<Rightarrow> Inl e
                                 | Inr gazeData_df \<Rightarrow>
                                     Inr \<lparr>frameNum = frameCounter, origFrame = orig,
                                          frame_ts = ts,
                                          gazeFrame = drawGazePts cv gazeData_df orig,
                                          foundGoodMatch = True,
                                          camPosition = Some camPos,
                                          camOrientation = Some camOri,
                                          ref2frame_2Dtrans = Some ref2frame_2D,
                                          frame2ref_2Dtrans = Some frame2ref_2D,
                                          gazeData = Some gazeData_df\<rparr>))))))"

subsection \<open>processFrame on a store of arrays\<close>

text \<open>
  The same function with the arrays made explicit. A store is the list of the arrays
  allocated so far, an address is a position in it. \<^verbatim>\<open>frame.copy()\<close> and
  \<^verbatim>\<open>origFrame.copy()\<close> allocate a new array, \<^verbatim>\<open>fr['gazeFrame'] = origFrame\<close> stores
  the same address under two keys, and \<^verbatim>\<open>cv2.circle\<close> overwrites the array it is given.
  The mapper receives the grey-scale picture, a fresh array of \<^verbatim>\<open>cv2.cvtColor\<close>.
\<close>

type_synonym addr = nat
type_synonym store = "image list"

definition copy_array :: "store \<Rightarrow> addr \<Rightarrow> addr \<times> store" where
  "copy_array h a = (length h, h @ [h ! a])"

definition drawGazePts_store :: "extlib \<Rightarrow> mapped_gaze list \<Rightarrow> addr \<Rightarrow> store \<Rightarrow> store" where
  "drawGazePts_store cv gazeData_df gf h =
     foldl (\<lambda>h' row.
        if df_label row = Max (set (map df_label gazeData_df))
        then h'[gf := circle cv (h' ! gf)
                        (py_int (frame_gazeX row), py_int (frame_gazeY row)) 10 (96, 52, 234)]
        else h'[gf := circle cv (h' ! gf)
                        (py_int (frame_gazeX row), py_int (frame_gazeY row)) 8 (168, 231, 86)])
      h gazeData_df"

definition processFrame_store ::
  "extlib \<Rightarrow> nat \<Rightarrow> addr \<Rightarrow> mapper \<Rightarrow> gaze_row list \<Rightarrow> real list \<Rightarrow> store
     \<Rightarrow> py_error + (addr frame_info \<times> store)" where
  "processFrame_store cv frameCounter frame m thisFrame_gazeData_world frame_timestamps h =
     (let (orig, h1) = copy_array h frame;
          frame_gray = cvtColor_BGR2GRAY cv (h1 ! frame)
      in if length frame_timestamps \<le> frameCounter then Inl IndexError
         else
           let ts = frame_timestamps ! frameCounter
           in case findFeatures m frame_gray of
                Inl e \<Rightarrow> Inl e
              | Inr (frame_kp, frame_des) \<Rightarrow>
                  (case (if length frame_kp < 2 then Inr (None, None)
                         else findMatches m frame_kp frame_des) of
                     Inl e \<Rightarrow> Inl e
                   | Inr (ref_matchPts, frame_matchPts) \<Rightarrow>
                       if \<not> sufficientMatches ref_matchPts
                       then Inr (\<lparr>frameNum = frameCounter, origFrame = orig, frame_ts = ts,
                                  gazeFrame = orig, foundGoodMatch = False,
                                  camPosition = None, camOrientation = None,
                                  ref2frame_2Dtrans = None, frame2ref_2Dtrans = None,
                                  gazeData = None\<rparr>, h1)
                       else
                         (case PnP_3Dmapping m (the ref_matchPts) frame_matchPts of
                            Inl e \<Rightarrow> Inl e
                          | Inr (rvec, tvec) \<Rightarrow>
                          (case getCameraPosition m rvec tvec of
                            Inl e \<Rightarrow> Inl e
                          | Inr (camPos, camOri) \<Rightarrow>
                          (case get2Dmapping m (the ref_matchPts) frame_matchPts of
                            Inl e \<Rightarrow> Inl e
                          | Inr (ref2frame_2D, frame2ref_2D) \<Rightarrow>
                              if thisFrame_gazeData_world = []
                              then Inr (\<lparr>frameNum = frameCounter, origFrame = orig,
                                         frame_ts = ts, gazeFrame = orig,
                                         foundGoodMatch = True,
                                         camPosition = Some camPos,
                                         camOrientation = Some camOri,
                                         ref2frame_2Dtrans = Some ref2frame_2D,
                                         frame2ref_2Dtrans = Some frame2ref_2D,
                                         gazeData = Some []\<rparr>, h1)
                              else
                                (case mapGazeRows m frameCounter frame_gray frame2ref_2D []
                                        thisFrame_gazeData_world of
                                   Inl e \<Rightarrow> Inl e
                                 | Inr gazeData_df \<Rightarrow>
                                     (let (gf, h2) = copy_array h1 orig;
                                          h3 = drawGazePts_store cv gazeData_df gf h2
                                      in Inr (\<lparr>frameNum = frameCounter, origFrame = orig,
                                            frame_ts = ts, gazeFrame = gf,
                                            foundGoodMatch = True,
                                            camPosition = Some camPos,
                                            camOrientation = Some camOri,
                                            ref2frame_2Dtrans = Some ref2frame_2D,
                                            frame2ref_2Dtrans = Some frame2ref_2D,
                                            gazeData = Some gazeData_df\<rparr>, h3))))))))"

text \<open>The dictionary with its two arrays read from the store.\<close>

definition load_frames :: "store \<Rightarrow> addr frame_info \<Rightarrow> image frame_info" where
  "load_frames h fr =
     \<lparr>frameNum = frameNum fr, origFrame = h ! origFrame fr, frame_ts = frame_ts fr,
      gazeFrame = h ! gazeFrame fr, foundGoodMatch = foundGoodMatch fr,
      camPosition = camPosition fr, camOrientation = camOrientation fr,
      ref2frame_2Dtrans = ref2frame_2Dtrans fr, frame2ref_2Dtrans = frame2ref_2Dtrans fr,
      gazeData = gazeData fr\<rparr>"

subsection \<open>createHeatmap\<close>

text \<open>Lines 409 to 423: the gaze trace. The row whose index label is the smallest sets
  the starting point; every other row draws a segment from the previous point, which
  is an unbound local when no starting point has been set yet.\<close>

fun addGazeTrace :: "extlib \<Rightarrow> nat \<Rightarrow> (int \<times> int) option \<Rightarrow> image \<Rightarrow> mapped_gaze list
                      \<Rightarrow> py_error + image" where
  "addGazeTrace cv index_min prev heatmap [] = Inr heatmap"
| "addGazeTrace cv index_min prev heatmap (row # rest) =
     (if df_label row = index_min
      then addGazeTrace cv index_min
             (Some (py_int (ref_gazeX row), py_int (ref_gazeY row))) heatmap rest
      else
        (let cur = (py_int (ref_gazeX row), py_int (ref_gazeY row))
         in case prev of
              None \<Rightarrow> Inl UnboundLocalError
            | Some p \<Rightarrow>
                addGazeTrace cv index_min (Some cur)
                  (line cv heatmap p cur (107, 234, 101) 3) rest))"

text \<open>Lines 426 to 434: circles for the rows of the current frame.\<close>

definition addLastDots :: "extlib \<Rightarrow> mapped_gaze list \<Rightarrow> nat \<Rightarrow> image \<Rightarrow> image" where
  "addLastDots cv heatmap_df frameCounter heatmap =
     foldl (\<lambda>img row.
        if df_label row = Max (set (map df_label heatmap_df))
        then circle cv img (py_int (ref_gazeX row), py_int (ref_gazeY row)) 10 (234, 52, 96)
        else circle cv img (py_int (ref_gazeX row), py_int (ref_gazeY row)) 8 (86, 231, 168))
      heatmap (filter (\<lambda>r. worldFrame r = frameCounter) heatmap_df)"

definition createHeatmap :: "extlib \<Rightarrow> mapped_gaze list \<Rightarrow> nat \<Rightarrow> image \<Rightarrow> py_error + image" where
  "createHeatmap cv gazeData_master frameCounter refStim =
     (let heatmap_df = filter (\<lambda>r. worldFrame r \<le> frameCounter) gazeData_master;
          refStim_RGB = cvtColor_BGR2RGB cv refStim;
          w = shape1 refStim;
          h = shape0 refStim
      in if length heatmap_df \<le> 2 then Inr refStim
         else
           (let xArr = map ref_gazeX heatmap_df;
                yArr = map ref_gazeY heatmap_df
            in case kdeplot cv refStim_RGB w h xArr yArr of
                 Inl e \<Rightarrow> Inl e
               | Inr heatmap \<Rightarrow>
                   (case addGazeTrace cv (Min (set (map df_label heatmap_df))) None
                           heatmap heatmap_df of
                      Inl e \<Rightarrow> Inl e
                    | Inr traced \<Rightarrow>
                        Inr (cvtColor_BGR2RGB cv
                               (addLastDots cv heatmap_df frameCounter traced)))))"

subsection \<open>The frame loop of processRecording\<close>

text \<open>What lines 79 to 134 of \<^verbatim>\<open>processRecording\<close> have loaded when the loop starts: the
  camera calibration, the gaze table, the frame timestamps, the reference stimulus,
  the mapper, and the video (whether it opened, its frames in reading order, and the
  frame count and frame size it reports).\<close>

record session =
  camera_matrix :: "real list"
  dist_coefs :: "real list"
  gazeWorld_df :: "gaze_row list"
  frame_timestamps :: "real list"
  refStim :: image
  gazeMapper :: mapper
  vid_opened :: bool
  vid_frames :: "image list"
  totalFrames :: nat
  vidSize :: "nat \<times> nat"

text \<open>A \<^verbatim>\<open>cv2.VideoWriter\<close>: the frame size it was opened with and the images handed to
  \<^verbatim>\<open>write\<close>, in order.\<close>

record video_writer =
  vw_frameSize :: "nat \<times> nat"
  vw_written :: "image list"

text \<open>The locals of the loop. \<open>gazeData_master\<close> is \<open>None\<close> while the local is unbound;
  \<open>gazeData_master_tsv\<close> is the file written by \<^verbatim>\<open>to_csv\<close>.\<close>

record run_state =
  vid_isOpened :: bool
  gazeData_master :: "mapped_gaze list option"
  vidOut_orig :: video_writer
  vidOut_gaze :: video_writer
  vidOut_summaryRef :: video_writer
  vidOut_summaryWorld :: video_writer
  gazeData_master_tsv :: "mapped_gaze list option"

text \<open>Lines 80 and 137 to 138.\<close>

definition framesToUse :: "nat \<Rightarrow> nat list" where
  "framesToUse nframes =
     (let ftu = [0..<445]
      in if Max (set ftu) < nframes then filter (\<lambda>f. f \<le> nframes) ftu else ftu)"

definition vw_write :: "video_writer \<Rightarrow> image \<Rightarrow> video_writer" where
  "vw_write vw img = vw\<lparr>vw_written := vw_written vw @ [img]\<rparr>"

text \<open>Lines 201 to 205.\<close>

definition writeFrames :: "image frame_info \<Rightarrow> image \<Rightarrow> image \<Rightarrow> run_state \<Rightarrow> run_state" where
  "writeFrames processedFrame gazeSummary_ref mappedSummaryFrame st =
     st\<lparr>vidOut_orig := vw_write (vidOut_orig st) (origFrame processedFrame),
        vidOut_gaze := vw_write (vidOut_gaze st) (gazeFrame processedFrame),
        vidOut_summaryRef := vw_write (vidOut_summaryRef st) gazeSummary_ref,
        vidOut_summaryWorld := vw_write (vidOut_summaryWorld st) mappedSummaryFrame\<rparr>"

text \<open>Line 178: the call of \<^verbatim>\<open>processFrame\<close> for the frame read at position
  \<open>frameCounter\<close>, on the undistorted frame and the gaze rows of that frame.\<close>

definition processedFrameAt :: "extlib \<Rightarrow> session \<Rightarrow> nat \<Rightarrow> py_error + image frame_info" where
  "processedFrameAt cv inp frameCounter =
     (let thisFrame_gazeData_world =
            filter (\<lambda>g. world_index g = frameCounter) (gazeWorld_df inp);
          frame = undistort cv (camera_matrix inp) (dist_coefs inp)
                    (vid_frames inp ! frameCounter)
      in processFrame cv frameCounter frame (gazeMapper inp) thisFrame_gazeData_world
           (frame_timestamps inp))"

text \<open>Lines 166 to 205: one pass through the body of the loop, up to the increment of
  the counter.\<close>

definition loopBody :: "extlib \<Rightarrow> session \<Rightarrow> nat \<Rightarrow> run_state \<Rightarrow> py_error + run_state" where
  "loopBody cv inp frameCounter st =
     (if frameCounter < length (vid_frames inp)
         \<and> frameCounter \<in> set (framesToUse (totalFrames inp))
      then
        (case processedFrameAt cv inp frameCounter of
           Inl e \<Rightarrow> Inl e
         | Inr processedFrame \<Rightarrow>
             if foundGoodMatch processedFrame
             then
               (case gazeData processedFrame of
                  None \<Rightarrow> Inl KeyError
                | Some gd \<Rightarrow>
                    (let master = (case gazeData_master st of
                                     Some old \<Rightarrow> old @ gd
                                   | None \<Rightarrow> gd)
                     in case createHeatmap cv master frameCounter
                               (refImgColor (gazeMapper inp)) of
                          Inl e \<Rightarrow> Inl e
                        | Inr gazeSummary_ref \<Rightarrow>
                            (case ref2frame_2Dtrans processedFrame of
                               None \<Rightarrow> Inl KeyError
                             | Some ref2frame \<Rightarrow>
                                 (case projectImage2D (gazeMapper inp)
                                         (origFrame processedFrame) ref2frame gazeSummary_ref of
                                    Inl e \<Rightarrow> Inl e
                                  | Inr mappedSummaryFrame \<Rightarrow>
                                      Inr (writeFrames processedFrame gazeSummary_ref
                                             mappedSummaryFrame
                                             (st\<lparr>gazeData_master := Some master\<rparr>))))))
             else
               Inr (writeFrames processedFrame (origFrame processedFrame)
                      (origFrame processedFrame) st))
      else Inr st)"

text \<open>Lines 207 to 217: after the increment, past the last frame to use, the video and
  the writers are released and the master table is written; reading the unbound
  local raises.\<close>

definition finishRun :: "run_state \<Rightarrow> py_error + run_state" where
  "finishRun st =
     (let released = st\<lparr>vid_isOpened := False\<rparr>
      in case gazeData_master released of
           None \<Rightarrow> Inl UnboundLocalError
         | Some master \<Rightarrow> Inr (released\<lparr>gazeData_master_tsv := Some master\<rparr>))"

function frameLoop :: "extlib \<Rightarrow> session \<Rightarrow> nat \<Rightarrow> run_state \<Rightarrow> py_error + run_state" where
  "frameLoop cv inp frameCounter st =
     (case loopBody cv inp frameCounter st of
        Inl e \<Rightarrow> Inl e
      | Inr st' \<Rightarrow>
          if Max (set (framesToUse (totalFrames inp))) < frameCounter + 1
          then finishRun st'
          else frameLoop cv inp (frameCounter + 1) st')"
  by pat_completeness auto
termination
proof (relation "measure (\<lambda>(cv, inp, frameCounter, st). 445 - frameCounter)")
  show "wf (measure (\<lambda>(cv, inp, frameCounter, st). 445 - frameCounter))"
    by simp
next
  fix cv :: extlib and inp :: session and frameCounter :: nat and st x2 :: run_state
  assume a: "\<not> Max (set (framesToUse (totalFrames inp))) < frameCounter + 1"
  have s: "set (framesToUse (totalFrames inp)) \<subseteq> {0..<445}"
    by (auto simp: framesToUse_def Let_def)
  have ne: "set (framesToUse (totalFrames inp)) \<noteq> {}"
    by (auto simp: framesToUse_def Let_def)
  have "Max (set (framesToUse (totalFrames inp))) \<in> set (framesToUse (totalFrames inp))"
    using ne by (intro Max_in) simp_all
  with s have "Max (set (framesToUse (totalFrames inp))) < 445"
    by auto
  with a show "((cv, inp, frameCounter + 1, x2), (cv, inp, frameCounter, st))
                 \<in> measure (\<lambda>(cv, inp, frameCounter, st). 445 - frameCounter)"
    by simp
qed

declare frameLoop.simps [simp del]

text \<open>Lines 140 to 157: the four writers are opened, three with the frame size of the
  video and \<^verbatim>\<open>vidOut_summaryRef\<close> with the pixel dimensions of the reference stimulus;
  no local \<^verbatim>\<open>gazeData_master\<close> exists yet.\<close>

definition openWriters :: "session \<Rightarrow> run_state" where
  "openWriters inp =
     (let refStim_dims = (shape1 (refStim inp), shape0 (refStim inp))
      in \<lparr>vid_isOpened = vid_opened inp,
          gazeData_master = None,
          vidOut_orig = \<lparr>vw_frameSize = vidSize inp, vw_written = []\<rparr>,
          vidOut_gaze = \<lparr>vw_frameSize = vidSize inp, vw_written = []\<rparr>,
          vidOut_summaryRef = \<lparr>vw_frameSize = refStim_dims, vw_written = []\<rparr>,
          vidOut_summaryWorld = \<lparr>vw_frameSize = vidSize inp, vw_written = []\<rparr>,
          gazeData_master_tsv = None\<rparr>)"

text \<open>Lines 160 to 217: the loop is entered if the video is open, and left when the
  video has been released.\<close>

definition processRecording :: "extlib \<Rightarrow> session \<Rightarrow> py_error + run_state" where
  "processRecording cv inp =
     (let st0 = openWriters inp
      in if vid_isOpened st0 then frameLoop cv inp 0 st0 else Inr st0)"

subsection \<open>Notions used in the statements, and concrete inputs\<close>

text \<open>The dictionary returned on the path of lines 270 to 273: the two frame keys hold
  the untouched copy of the frame, the flag is false, and no key of the good-match
  branch is set.\<close>

definition rawFrameOnly :: "nat \<Rightarrow> image \<Rightarrow> real \<Rightarrow> image frame_info" where
  "rawFrameOnly k img t =
     \<lparr>frameNum = k, origFrame = img, frame_ts = t, gazeFrame = img, foundGoodMatch = False,
      camPosition = None, camOrientation = None, ref2frame_2Dtrans = None,
      frame2ref_2Dtrans = None, gazeData = None\<rparr>"

text \<open>A camera frame of 640 by 480, library calls that leave a visible mark in the
  pixel data, and a mapper that finds a given number of keypoints and of matches and
  whose solver succeeds.\<close>

definition ex_image :: image where
  "ex_image = \<lparr>shape0 = 480, shape1 = 640, pixels = [1, 2, 3]\<rparr>"

definition ex_cv :: extlib where
  "ex_cv = \<lparr>cvtColor_BGR2GRAY = (\<lambda>img. img\<lparr>pixels := map (\<lambda>p. p div 3) (pixels img)\<rparr>),
            cvtColor_BGR2RGB = (\<lambda>img. img\<lparr>pixels := rev (pixels img)\<rparr>),
            undistort = (\<lambda>cm dc img. img),
            circle = (\<lambda>img c r col. img\<lparr>pixels := pixels img @ [r]\<rparr>),
            line = (\<lambda>img p q col th. img\<lparr>pixels := pixels img @ [th]\<rparr>),
            kdeplot = (\<lambda>img w h xs ys. Inr (img\<lparr>pixels := pixels img @ [length xs]\<rparr>))\<rparr>"

definition ex_mapper :: "nat \<Rightarrow> nat \<Rightarrow> mapper" where
  "ex_mapper nkp nmatch =
     \<lparr>refImgColor = \<lparr>shape0 = 200, shape1 = 300, pixels = [7, 8, 9]\<rparr>,
      findFeatures = (\<lambda>img. Inr (replicate nkp (0, 0), [])),
      findMatches = (\<lambda>kp des. Inr (Some (replicate nmatch (1, 1)),
                                     Some (replicate nmatch (2, 2)))),
      PnP_3Dmapping = (\<lambda>r f. Inr ((0, 0, 0), (0, 0, 1))),
      getCameraPosition = (\<lambda>r t. Inr (t, r)),
      get2Dmapping = (\<lambda>r f. Inr ([1, 0, 0, 0, 1, 0, 0, 0, 1], [1, 0, 0, 0, 1, 0, 0, 0, 1])),
      mapCoords2D = (\<lambda>p h. Inr p),
      ref2obj = (\<lambda>(x, y). Inr (x / 10, y / 10, 0)),
      projectImage2D = (\<lambda>frame h img. Inr frame)\<rparr>"

definition ex_gaze :: "gaze_row list" where
  "ex_gaze = [\<lparr>row_label = 0, world_index = 0, timestamp = 0, confidence = 1,
               norm_pos_x = 1/2, norm_pos_y = 1/4\<rparr>]"

text \<open>A mapper as above whose pose solver raises, and a loaded session around a given
  mapper, list of video frames and gaze table.\<close>

definition ex_failing_mapper :: mapper where
  "ex_failing_mapper =
     (ex_mapper 5 11)\<lparr>PnP_3Dmapping := (\<lambda>r f. Inl (ExternalError ''cv2.error''))\<rparr>"

definition ex_session :: "mapper \<Rightarrow> image list \<Rightarrow> gaze_row list \<Rightarrow> session" where
  "ex_session m frames gaze =
     \<lparr>camera_matrix = [], dist_coefs = [], gazeWorld_df = gaze,
      frame_timestamps = [7, 8, 9], refStim = refImgColor m, gazeMapper = m,
      vid_opened = True, vid_frames = frames, totalFrames = length frames,
      vidSize = (640, 480)\<rparr>"

text \<open>A mapped gaze row with a given index label, frame and position, and a reference
  image.\<close>

definition ex_row :: "nat \<Rightarrow> nat \<Rightarrow> real \<Rightarrow> real \<Rightarrow> mapped_gaze" where
  "ex_row lbl frm x y =
     \<lparr>df_label = lbl, gaze_ts = 0, worldFrame = frm, gaze_confidence = 1,
      frame_gazeX = x, frame_gazeY = y, ref_gazeX = x, ref_gazeY = y,
      obj_gazeX = x / 10, obj_gazeY = y / 10, obj_gazeZ = 0\<rparr>"

definition ex_ref :: image where
  "ex_ref = \<lparr>shape0 = 200, shape1 = 300, pixels = [7, 8, 9]\<rparr>"

text \<open>Notions of the statements about the loop: the rows of the master table (none
  while the local is unbound), the mapped gaze points a frame result carries, and the
  number of frames the loop processes (the frames read, within \<^verbatim>\<open>framesToUse\<close>).\<close>

definition masterRows :: "run_state \<Rightarrow> mapped_gaze list" where
  "masterRows st = (case gazeData_master st of None \<Rightarrow> [] | Some rows \<Rightarrow> rows)"

definition mappedPoints :: "image frame_info \<Rightarrow> mapped_gaze list" where
  "mappedPoints fr = (case gazeData fr of None \<Rightarrow> [] | Some rows \<Rightarrow> rows)"

definition lastFrame :: "session \<Rightarrow> nat" where
  "lastFrame inp = min 445 (length (vid_frames inp))"

text \<open>A mapper that finds one keypoint per pixel entry (so a blank frame has none), a
  blank frame, a gaze table with one sample in each of the frames 0 and 1, a run over
  a matching and a blank frame, and a run in which no frame matches.\<close>

definition ex_mapper_by_image :: mapper where
  "ex_mapper_by_image =
     (ex_mapper 0 11)\<lparr>findFeatures := (\<lambda>img. Inr (replicate (length (pixels img)) (0, 0), []))\<rparr>"

definition ex_blank :: image where
  "ex_blank = \<lparr>shape0 = 480, shape1 = 640, pixels = []\<rparr>"

definition ex_gaze2 :: "gaze_row list" where
  "ex_gaze2 = ex_gaze @ [\<lparr>row_label = 1, world_index = 1, timestamp = 1, confidence = 1,
                          norm_pos_x = 1/4, norm_pos_y = 1/2\<rparr>]"

definition ex_run :: session where
  "ex_run = ex_session ex_mapper_by_image [ex_image, ex_blank] ex_gaze2"

definition ex_no_match :: session where
  "ex_no_match = ex_session (ex_mapper 1 0) [ex_image] ex_gaze"

text \<open>The dictionary that the first run on the store \<open>[ex_image]\<close> returns: the copy
  of the frame at address 1, the overlay at address 2.\<close>

definition ex_fr1 :: "addr frame_info" where
  "ex_fr1 = \<lparr>frameNum = 0, origFrame = 1, frame_ts = 7, gazeFrame = 2,
             foundGoodMatch = True, camPosition = Some (0, 0, 1),
             camOrientation = Some (0, 0, 0),
             ref2frame_2Dtrans = Some [1, 0, 0, 0, 1, 0, 0, 0, 1],
             frame2ref_2Dtrans = Some [1, 0, 0, 0, 1, 0, 0, 0, 1],
             gazeData = Some [ex_row 0 0 320 360]\<rparr>"

text \<open>A master table whose first row does not carry the smallest index label; its
  three points are not on a line.\<close>

definition ex_unordered_log :: "mapped_gaze list" where
  "ex_unordered_log = [ex_row 5 0 10 20, ex_row 0 1 30 80, ex_row 1 1 50 40]"







section \<open>Properties\<close>

subsection \<open>The two exits of processFrame\<close>

lemma processFrame_insufficient:
  assumes "k < length ts"
    and "findFeatures m (cvtColor_BGR2GRAY cv frame) = Inr (kp, des)"
    and "length kp < 2
         \<or> (\<exists>fpts. findMatches m kp des = Inr (rpts, fpts) \<and> \<not> sufficientMatches rpts)"
  shows "processFrame cv k frame m gaze ts = Inr (rawFrameOnly k frame (ts ! k))"
  using assms
  by (auto simp: processFrame_def rawFrameOnly_def sufficientMatches_def Let_def)

lemma processFrame_sufficient:
  assumes "k < length ts"
    and "findFeatures m (cvtColor_BGR2GRAY cv frame) = Inr (kp, des)"
    and "\<not> length kp < 2"
    and "findMatches m kp des = Inr (Some pts, fpts)"
    and "10 < length pts"
  shows "processFrame cv k frame m gaze ts =
    (case PnP_3Dmapping m pts fpts of
       Inl e \<Rightarrow> Inl e
     | Inr (rvec, tvec) \<Rightarrow>
      (case getCameraPosition m rvec tvec of
         Inl e \<Rightarrow> Inl e
       | Inr (camPos, camOri) \<Rightarrow>
        (case get2Dmapping m pts fpts of
           Inl e \<Rightarrow> Inl e
         | Inr (r2f, f2r) \<Rightarrow>
            (case mapGazeRows m k (cvtColor_BGR2GRAY cv frame) f2r [] gaze of
               Inl e \<Rightarrow> Inl e
             | Inr rows \<Rightarrow>
                 Inr \<lparr>frameNum = k, origFrame = frame, frame_ts = ts ! k,
                      gazeFrame = drawGazePts cv rows frame, foundGoodMatch = True,
                      camPosition = Some camPos, camOrientation = Some camOri,
                      ref2frame_2Dtrans = Some r2f, frame2ref_2Dtrans = Some f2r,
                      gazeData = Some rows\<rparr>))))"
  using assms
  by (auto simp: processFrame_def sufficientMatches_def Let_def drawGazePts_def
           split: sum.splits prod.splits)

text \<open>
  Claim C3. On a frame with fewer than two detected keypoints the matcher is not
  invoked and the result is the raw-frame result with \<open>foundGoodMatch = False\<close>:
  whatever function stands in the mapper's \<open>findMatches\<close> slot, also one that raises
  on every call, \<open>processFrame\<close> returns that same result.
\<close>

theorem processFrame_few_keypoints_skips_matcher:
  assumes ts: "k < length ts"
    and ff: "findFeatures m (cvtColor_BGR2GRAY cv frame) = Inr (kp, des)"
    and kp: "length kp < 2"
  shows "processFrame cv k frame (m\<lparr>findMatches := matcher\<rparr>) gaze ts
           = Inr (rawFrameOnly k frame (ts ! k))
         \<and> foundGoodMatch (rawFrameOnly k frame (ts ! k)) = False"
proof -
  have "findFeatures (m\<lparr>findMatches := matcher\<rparr>) (cvtColor_BGR2GRAY cv frame) = Inr (kp, des)"
    using ff by simp
  then have "processFrame cv k frame (m\<lparr>findMatches := matcher\<rparr>) gaze ts
               = Inr (rawFrameOnly k frame (ts ! k))"
    using ts kp by (intro processFrame_insufficient) auto
  then show ?thesis
    by (simp add: rawFrameOnly_def)
qed

theorem processFrame_few_keypoints_skips_matcher_witness:
  "processFrame ex_cv 0 ex_image
       ((ex_mapper 1 11)\<lparr>findMatches := (\<lambda>kp des. Inl (ExternalError ''matcher called''))\<rparr>)
       ex_gaze [7]
     = Inr (rawFrameOnly 0 ex_image 7)
   \<and> foundGoodMatch (rawFrameOnly 0 ex_image 7) = False"
  using processFrame_few_keypoints_skips_matcher
          [of 0 "[7]" "ex_mapper 1 11" ex_cv ex_image "[(0, 0)]" "[]"
              "\<lambda>kp des. Inl (ExternalError ''matcher called'')" ex_gaze]
  by (simp add: ex_mapper_def)

text \<open>
  Claim C2. When the matcher has run and returned its match points, every result of
  \<open>processFrame\<close> has \<open>foundGoodMatch\<close> true exactly when the number of accepted
  correspondences is greater than 10. With 10 or fewer the result is the raw-frame
  result: both frame keys hold the untouched frame and no gaze data is mapped. With
  more than 10, and the solver and the gaze mapping returning, a result with the
  flag true is returned.
\<close>

theorem processFrame_threshold:
  assumes ts: "k < length ts"
    and ff: "findFeatures m (cvtColor_BGR2GRAY cv frame) = Inr (kp, des)"
    and kp: "\<not> length kp < 2"
    and fm: "findMatches m kp des = Inr (rpts, fpts)"
  shows "(\<forall>fr. processFrame cv k frame m gaze ts = Inr fr \<longrightarrow>
             foundGoodMatch fr = (10 < (case rpts of None \<Rightarrow> 0 | Some pts \<Rightarrow> length pts)))
       \<and> ((case rpts of None \<Rightarrow> 0 | Some pts \<Rightarrow> length pts) \<le> 10 \<longrightarrow>
             processFrame cv k frame m gaze ts = Inr (rawFrameOnly k frame (ts ! k)))
       \<and> (\<forall>pts rvec tvec pos ori r2f f2r rows.
             rpts = Some pts \<and> 10 < length pts
             \<and> PnP_3Dmapping m pts fpts = Inr (rvec, tvec)
             \<and> getCameraPosition m rvec tvec = Inr (pos, ori)
             \<and> get2Dmapping m pts fpts = Inr (r2f, f2r)
             \<and> mapGazeRows m k (cvtColor_BGR2GRAY cv frame) f2r [] gaze = Inr rows
             \<longrightarrow> (\<exists>fr. processFrame cv k frame m gaze ts = Inr fr \<and> foundGoodMatch fr = True))"
proof (cases "sufficientMatches rpts")
  case False
  then have n: "(case rpts of None \<Rightarrow> 0 | Some pts \<Rightarrow> length pts) \<le> 10"
    by (auto simp: sufficientMatches_def split: option.splits if_splits)
  have "processFrame cv k frame m gaze ts = Inr (rawFrameOnly k frame (ts ! k))"
    using ts ff fm False by (intro processFrame_insufficient) auto
  with n show ?thesis
    by (auto simp: rawFrameOnly_def)
next
  case True
  then obtain pts where p: "rpts = Some pts" "10 < length pts"
    by (auto simp: sufficientMatches_def split: option.splits if_splits)
  note eq = processFrame_sufficient [OF ts ff kp fm [unfolded p(1)] p(2), of gaze]
  show ?thesis
    unfolding eq using p
    by (auto split: sum.splits prod.splits)
qed

theorem processFrame_threshold_witness:
  "processFrame ex_cv 0 ex_image (ex_mapper 5 10) ex_gaze [7] = Inr (rawFrameOnly 0 ex_image 7)
   \<and> (\<exists>fr. processFrame ex_cv 0 ex_image (ex_mapper 5 11) ex_gaze [7] = Inr fr
            \<and> foundGoodMatch fr = True)"
proof -
  have a: "mapGazeRows (ex_mapper 5 11) 0 (cvtColor_BGR2GRAY ex_cv ex_image)
             [1, 0, 0, 0, 1, 0, 0, 0, 1] [] ex_gaze
           = Inr [\<lparr>df_label = 0, gaze_ts = 0, worldFrame = 0, gaze_confidence = 1,
                   frame_gazeX = 320, frame_gazeY = 360, ref_gazeX = 320,
                   ref_gazeY = 360, obj_gazeX = 32, obj_gazeY = 36, obj_gazeZ = 0\<rparr>]"
    by (simp add: ex_mapper_def ex_cv_def ex_image_def ex_gaze_def)
  have lo: "processFrame ex_cv 0 ex_image (ex_mapper 5 10) ex_gaze [7]
              = Inr (rawFrameOnly 0 ex_image 7)"
    using processFrame_threshold
            [of 0 "[7]" "ex_mapper 5 10" ex_cv ex_image "replicate 5 (0, 0)" "[]"
                "Some (replicate 10 (1, 1))" "Some (replicate 10 (2, 2))" ex_gaze]
    by (simp add: ex_mapper_def)
  have hi: "\<exists>fr. processFrame ex_cv 0 ex_image (ex_mapper 5 11) ex_gaze [7] = Inr fr
                 \<and> foundGoodMatch fr = True"
    using processFrame_threshold
            [of 0 "[7]" "ex_mapper 5 11" ex_cv ex_image "replicate 5 (0, 0)" "[]"
                "Some (replicate 11 (1, 1))" "Some (replicate 11 (2, 2))" ex_gaze] a
    by (simp add: ex_mapper_def)
  from lo hi show ?thesis by simp
qed

text \<open>
  Claim C1 as stated does not hold of the code: the solver calls of lines 279 to 288
  stand outside every \<^verbatim>\<open>try\<close>. On a frame with 11 correspondences whose pose solver
  raises, \<open>processFrame\<close> returns no dictionary at all, in particular not the raw-frame
  one; the exception reaches the caller.
\<close>

theorem processFrame_solver_failure_counterexample:
  "findMatches ex_failing_mapper (replicate 5 (0, 0)) []
     = Inr (Some (replicate 11 (1, 1)), Some (replicate 11 (2, 2)))
   \<and> PnP_3Dmapping ex_failing_mapper (replicate 11 (1, 1)) (Some (replicate 11 (2, 2)))
       = Inl (ExternalError ''cv2.error'')
   \<and> processFrame ex_cv 0 ex_image ex_failing_mapper ex_gaze [7]
       = Inl (ExternalError ''cv2.error'')
   \<and> processFrame ex_cv 0 ex_image ex_failing_mapper ex_gaze [7]
       \<noteq> Inr (rawFrameOnly 0 ex_image 7)"
  by (simp add: ex_failing_mapper_def ex_mapper_def processFrame_def sufficientMatches_def)

text \<open>
  Claim C1, amended. On a frame with more than 10 correspondences, when one of the
  solver calls (\<open>PnP_3Dmapping\<close>, \<open>getCameraPosition\<close>, \<open>get2Dmapping\<close>, in this order)
  raises, \<open>processFrame\<close> raises that same exception to its caller and returns no
  result.
\<close>

theorem processFrame_solver_failure_propagates:
  assumes ts: "k < length ts"
    and ff: "findFeatures m (cvtColor_BGR2GRAY cv frame) = Inr (kp, des)"
    and kp: "\<not> length kp < 2"
    and fm: "findMatches m kp des = Inr (Some pts, fpts)"
    and n: "10 < length pts"
    and fail: "PnP_3Dmapping m pts fpts = Inl e
               \<or> (\<exists>rvec tvec. PnP_3Dmapping m pts fpts = Inr (rvec, tvec)
                     \<and> (getCameraPosition m rvec tvec = Inl e
                        \<or> (\<exists>pos. getCameraPosition m rvec tvec = Inr pos
                              \<and> get2Dmapping m pts fpts = Inl e)))"
  shows "processFrame cv k frame m gaze ts = Inl e"
proof -
  note eq = processFrame_sufficient [OF ts ff kp fm n, of gaze]
  from fail show ?thesis
  proof (elim disjE exE conjE)
    assume "PnP_3Dmapping m pts fpts = Inl e"
    then show ?thesis unfolding eq by simp
  next
    fix rvec tvec
    assume "PnP_3Dmapping m pts fpts = Inr (rvec, tvec)"
      and "getCameraPosition m rvec tvec = Inl e"
    then show ?thesis unfolding eq by simp
  next
    fix rvec tvec pos
    assume "PnP_3Dmapping m pts fpts = Inr (rvec, tvec)"
      and "getCameraPosition m rvec tvec = Inr pos"
      and "get2Dmapping m pts fpts = Inl e"
    then show ?thesis unfolding eq by (cases pos) simp
  qed
qed

theorem processFrame_solver_failure_propagates_witness:
  "processFrame ex_cv 0 ex_image ex_failing_mapper ex_gaze [7] = Inl (ExternalError ''cv2.error'')"
  using processFrame_solver_failure_propagates
          [of 0 "[7]" ex_failing_mapper ex_cv ex_image "replicate 5 (0, 0)" "[]"
              "replicate 11 (1, 1)" "Some (replicate 11 (2, 2))" "ExternalError ''cv2.error''"
              ex_gaze]
  by (simp add: ex_failing_mapper_def ex_mapper_def)

subsection \<open>Frames without gaze samples\<close>

lemma in_framesToUse: "k \<in> set (framesToUse t) \<longleftrightarrow> k < 445"
  by (auto simp: framesToUse_def Let_def)

text \<open>
  Claim C6. On a good-match frame (more than 10 correspondences, the solver calls
  returning) that has no gaze sample, \<open>processFrame\<close> returns a result, not an error:
  its gaze data is the empty table, \<open>foundGoodMatch\<close> is true and the gaze frame is
  the untouched frame. In the loop, such a frame takes the good-match branch: the
  master table becomes bound (with its rows unchanged), the heatmap of the rows so
  far is computed, and that heatmap is what the reference-space summary receives.
\<close>

theorem processFrame_no_gaze_samples:
  assumes ts: "k < length ts"
    and ff: "findFeatures m (cvtColor_BGR2GRAY cv frame) = Inr (kp, des)"
    and kp: "\<not> length kp < 2"
    and fm: "findMatches m kp des = Inr (Some pts, fpts)"
    and n: "10 < length pts"
    and pnp: "PnP_3Dmapping m pts fpts = Inr (rvec, tvec)"
    and cam: "getCameraPosition m rvec tvec = Inr (pos, ori)"
    and hom: "get2Dmapping m pts fpts = Inr (r2f, f2r)"
  shows "processFrame cv k frame m [] ts =
           Inr \<lparr>frameNum = k, origFrame = frame, frame_ts = ts ! k, gazeFrame = frame,
                foundGoodMatch = True, camPosition = Some pos, camOrientation = Some ori,
                ref2frame_2Dtrans = Some r2f, frame2ref_2Dtrans = Some f2r,
                gazeData = Some []\<rparr>
       \<and> (\<forall>inp st. k < length (vid_frames inp) \<and> k < 445
            \<and> processedFrameAt cv inp k = processFrame cv k frame m [] ts \<longrightarrow>
          loopBody cv inp k st =
            (let master = (case gazeData_master st of Some old \<Rightarrow> old | None \<Rightarrow> [])
             in case createHeatmap cv master k (refImgColor (gazeMapper inp)) of
                  Inl e \<Rightarrow> Inl e
                | Inr gazeSummary_ref \<Rightarrow>
                    (case projectImage2D (gazeMapper inp) frame r2f gazeSummary_ref of
                       Inl e \<Rightarrow> Inl e
                     | Inr mappedSummaryFrame \<Rightarrow>
                         Inr (st\<lparr>gazeData_master := Some master,
                                 vidOut_orig := vw_write (vidOut_orig st) frame,
                                 vidOut_gaze := vw_write (vidOut_gaze st) frame,
                                 vidOut_summaryRef :=
                                   vw_write (vidOut_summaryRef st) gazeSummary_ref,
                                 vidOut_summaryWorld :=
                                   vw_write (vidOut_summaryWorld st) mappedSummaryFrame\<rparr>))))"
proof (intro conjI allI impI)
  show eq: "processFrame cv k frame m [] ts =
           Inr \<lparr>frameNum = k, origFrame = frame, frame_ts = ts ! k, gazeFrame = frame,
                foundGoodMatch = True, camPosition = Some pos, camOrientation = Some ori,
                ref2frame_2Dtrans = Some r2f, frame2ref_2Dtrans = Some f2r,
                gazeData = Some []\<rparr>"
    unfolding processFrame_sufficient [OF ts ff kp fm n, of "[]"]
    using pnp cam hom by (simp add: drawGazePts_def)
  fix inp :: session and st :: run_state
  assume a: "k < length (vid_frames inp) \<and> k < 445
      \<and> processedFrameAt cv inp k = processFrame cv k frame m [] ts"
  then have b: "k < length (vid_frames inp)" "k \<in> set (framesToUse (totalFrames inp))"
    by (simp_all add: in_framesToUse)
  from a have c: "processedFrameAt cv inp k = processFrame cv k frame m [] ts"
    by simp
  show "loopBody cv inp k st =
            (let master = (case gazeData_master st of Some old \<Rightarrow> old | None \<Rightarrow> [])
             in case createHeatmap cv master k (refImgColor (gazeMapper inp)) of
                  Inl e \<Rightarrow> Inl e
                | Inr gazeSummary_ref \<Rightarrow>
                    (case projectImage2D (gazeMapper inp) frame r2f gazeSummary_ref of
                       Inl e \<Rightarrow> Inl e
                     | Inr mappedSummaryFrame \<Rightarrow>
                         Inr (st\<lparr>gazeData_master := Some master,
                                 vidOut_orig := vw_write (vidOut_orig st) frame,
                                 vidOut_gaze := vw_write (vidOut_gaze st) frame,
                                 vidOut_summaryRef :=
                                   vw_write (vidOut_summaryRef st) gazeSummary_ref,
                                 vidOut_summaryWorld :=
                                   vw_write (vidOut_summaryWorld st) mappedSummaryFrame\<rparr>)))"
    using b
    by (simp add: loopBody_def c eq writeFrames_def Let_def
             split: option.splits sum.splits)
qed

theorem processFrame_no_gaze_samples_witness:
  "processFrame ex_cv 0 ex_image (ex_mapper 5 11) [] [7, 8, 9] =
     Inr \<lparr>frameNum = 0, origFrame = ex_image, frame_ts = 7, gazeFrame = ex_image,
          foundGoodMatch = True, camPosition = Some (0, 0, 1), camOrientation = Some (0, 0, 0),
          ref2frame_2Dtrans = Some [1, 0, 0, 0, 1, 0, 0, 0, 1],
          frame2ref_2Dtrans = Some [1, 0, 0, 0, 1, 0, 0, 0, 1],
          gazeData = Some []\<rparr>
   \<and> loopBody ex_cv (ex_session (ex_mapper 5 11) [ex_image] []) 0
        (openWriters (ex_session (ex_mapper 5 11) [ex_image] []))
     = Inr \<lparr>vid_isOpened = True, gazeData_master = Some [],
            vidOut_orig = \<lparr>vw_frameSize = (640, 480), vw_written = [ex_image]\<rparr>,
            vidOut_gaze = \<lparr>vw_frameSize = (640, 480), vw_written = [ex_image]\<rparr>,
            vidOut_summaryRef = \<lparr>vw_frameSize = (300, 200),
                                  vw_written = [refImgColor (ex_mapper 5 11)]\<rparr>,
            vidOut_summaryWorld = \<lparr>vw_frameSize = (640, 480), vw_written = [ex_image]\<rparr>,
            gazeData_master_tsv = None\<rparr>"
proof -
  note t = processFrame_no_gaze_samples
          [of 0 "[7, 8, 9]" "ex_mapper 5 11" ex_cv ex_image "replicate 5 (0, 0)" "[]"
              "replicate 11 (1, 1)" "Some (replicate 11 (2, 2))" "(0, 0, 0)" "(0, 0, 1)"
              "(0, 0, 1)" "(0, 0, 0)" "[1, 0, 0, 0, 1, 0, 0, 0, 1]" "[1, 0, 0, 0, 1, 0, 0, 0, 1]"]
  have h: "processedFrameAt ex_cv (ex_session (ex_mapper 5 11) [ex_image] []) 0
             = processFrame ex_cv 0 ex_image (ex_mapper 5 11) [] [7, 8, 9]"
    by (simp add: processedFrameAt_def ex_session_def ex_cv_def)
  have hm: "createHeatmap ex_cv [] 0 (refImgColor (ex_mapper 5 11))
              = Inr (refImgColor (ex_mapper 5 11))"
    by (simp add: createHeatmap_def)
  have pj: "\<And>a b c. projectImage2D (ex_mapper 5 11) a b c = Inr a"
    by (simp add: ex_mapper_def)
  have g: "gazeMapper (ex_session (ex_mapper 5 11) [ex_image] []) = ex_mapper 5 11"
       "vid_frames (ex_session (ex_mapper 5 11) [ex_image] []) = [ex_image]"
    by (simp_all add: ex_session_def)
  have st: "openWriters (ex_session (ex_mapper 5 11) [ex_image] [])
     = \<lparr>vid_isOpened = True, gazeData_master = None,
            vidOut_orig = \<lparr>vw_frameSize = (640, 480), vw_written = []\<rparr>,
            vidOut_gaze = \<lparr>vw_frameSize = (640, 480), vw_written = []\<rparr>,
            vidOut_summaryRef = \<lparr>vw_frameSize = (300, 200), vw_written = []\<rparr>,
            vidOut_summaryWorld = \<lparr>vw_frameSize = (640, 480), vw_written = []\<rparr>,
            gazeData_master_tsv = None\<rparr>"
    by (simp add: openWriters_def ex_session_def ex_mapper_def)
  have pre: "findFeatures (ex_mapper 5 11) (cvtColor_BGR2GRAY ex_cv ex_image) = Inr (replicate 5 (0, 0), [])"
    "findMatches (ex_mapper 5 11) (replicate 5 (0, 0)) [] = Inr (Some (replicate 11 (1, 1)), Some (replicate 11 (2, 2)))"
    "PnP_3Dmapping (ex_mapper 5 11) (replicate 11 (1, 1)) (Some (replicate 11 (2, 2))) = Inr ((0, 0, 0), (0, 0, 1))"
    "getCameraPosition (ex_mapper 5 11) (0, 0, 0) (0, 0, 1) = Inr ((0, 0, 1), (0, 0, 0))"
    "get2Dmapping (ex_mapper 5 11) (replicate 11 (1, 1)) (Some (replicate 11 (2, 2))) = Inr ([1, 0, 0, 0, 1, 0, 0, 0, 1], [1, 0, 0, 0, 1, 0, 0, 0, 1])"
    by (simp_all add: ex_mapper_def)
  from t pre h show ?thesis
    by (simp add: hm pj g st vw_write_def)
qed

subsection \<open>Denormalisation of the gaze samples\<close>

lemma mapGazeRows_denormalized:
  "mapGazeRows m k gray f2r acc gs = Inr rows \<Longrightarrow>
     \<exists>new. rows = acc @ new
       \<and> map (\<lambda>r. (frame_gazeX r, frame_gazeY r)) new
           = map (\<lambda>g. (norm_pos_x g * real (shape1 gray),
                         real (shape0 gray) - norm_pos_y g * real (shape0 gray))) gs"
proof (induction gs arbitrary: acc)
  case Nil
  then show ?case by simp
next
  case (Cons g gs)
  from Cons.prems obtain r where
    rec: "mapGazeRows m k gray f2r (acc @ [r]) gs = Inr rows"
    and fx: "frame_gazeX r = norm_pos_x g * real (shape1 gray)"
    and fy: "frame_gazeY r = real (shape0 gray) - norm_pos_y g * real (shape0 gray)"
    by (auto simp: Let_def split: sum.splits prod.splits)
  from Cons.IH [OF rec] obtain new where
    "rows = (acc @ [r]) @ new"
    "map (\<lambda>r. (frame_gazeX r, frame_gazeY r)) new
       = map (\<lambda>g. (norm_pos_x g * real (shape1 gray),
                     real (shape0 gray) - norm_pos_y g * real (shape0 gray))) gs"
    by blast
  with fx fy show ?case
    by (intro exI [of _ "r # new"]) simp
qed

text \<open>
  Claim C7. In every good-match result of \<open>processFrame\<close> the mapped rows correspond
  one to one, in order, to the gaze samples of the frame, and for a sample with
  normalised position \<open>(norm_x, norm_y)\<close> the frame pixel position is
  \<open>x = norm_x * width\<close> and \<open>y = height - norm_y * height\<close>, where width and height are
  the second and first dimension of the grey-scale frame.
\<close>

theorem processFrame_denormalization:
  assumes res: "processFrame cv k frame m gaze ts = Inr fr"
    and good: "foundGoodMatch fr"
  shows "\<exists>rows. gazeData fr = Some rows
           \<and> map (\<lambda>r. (frame_gazeX r, frame_gazeY r)) rows
               = map (\<lambda>g. (norm_pos_x g * real (shape1 (cvtColor_BGR2GRAY cv frame)),
                             real (shape0 (cvtColor_BGR2GRAY cv frame))
                               - norm_pos_y g * real (shape0 (cvtColor_BGR2GRAY cv frame))))
                     gaze"
proof (cases "gaze = []")
  case True
  with res good show ?thesis
    by (auto simp: processFrame_def Let_def split: if_splits sum.splits prod.splits)
next
  case False
  with res good obtain f2r rows where
    rows: "mapGazeRows m k (cvtColor_BGR2GRAY cv frame) f2r [] gaze = Inr rows"
    and gd: "gazeData fr = Some rows"
    by (auto simp: processFrame_def Let_def split: if_splits sum.splits prod.splits)
  from mapGazeRows_denormalized [OF rows] gd show ?thesis
    by simp
qed

theorem processFrame_denormalization_witness:
  "processFrame ex_cv 0 ex_image (ex_mapper 5 11) ex_gaze [7] =
     Inr \<lparr>frameNum = 0, origFrame = ex_image, frame_ts = 7,
          gazeFrame = ex_image\<lparr>pixels := [1, 2, 3, 10]\<rparr>,
          foundGoodMatch = True, camPosition = Some (0, 0, 1), camOrientation = Some (0, 0, 0),
          ref2frame_2Dtrans = Some [1, 0, 0, 0, 1, 0, 0, 0, 1],
          frame2ref_2Dtrans = Some [1, 0, 0, 0, 1, 0, 0, 0, 1],
          gazeData = Some [ex_row 0 0 320 360]\<rparr>
   \<and> map (\<lambda>r. (frame_gazeX r, frame_gazeY r)) [ex_row 0 0 320 360]
       = [(1 / 2 * 640, 480 - 1 / 4 * 480)]"
proof -
  have run: "processFrame ex_cv 0 ex_image (ex_mapper 5 11) ex_gaze [7] =
     Inr \<lparr>frameNum = 0, origFrame = ex_image, frame_ts = 7,
          gazeFrame = ex_image\<lparr>pixels := [1, 2, 3, 10]\<rparr>,
          foundGoodMatch = True, camPosition = Some (0, 0, 1), camOrientation = Some (0, 0, 0),
          ref2frame_2Dtrans = Some [1, 0, 0, 0, 1, 0, 0, 0, 1],
          frame2ref_2Dtrans = Some [1, 0, 0, 0, 1, 0, 0, 0, 1],
          gazeData = Some [ex_row 0 0 320 360]\<rparr>"
    by (simp add: processFrame_def sufficientMatches_def drawGazePts_def py_int_def
          ex_cv_def ex_mapper_def ex_image_def ex_gaze_def ex_row_def)
  from processFrame_denormalization [OF run] run show ?thesis
    by (simp add: ex_cv_def ex_image_def ex_gaze_def)
qed

subsection \<open>The heatmap\<close>






subsection \<open>The frame loop\<close>

lemma framesToUse_eq: "framesToUse t = [0..<445]"
proof -
  have m: "Max (set [0..<445]) = (444::nat)"
    by (intro Max_eqI) auto
  have "filter (\<lambda>f. f \<le> t) [0..<445] = [0..<445]" if "444 < t"
    using that by (intro filter_True) auto
  with m show ?thesis
    by (simp add: framesToUse_def Let_def del: upt_Suc)
qed

lemma Max_framesToUse: "Max (set (framesToUse t)) = 444"
  unfolding framesToUse_eq by (intro Max_eqI) auto

lemma frameLoop_unfold:
  "frameLoop cv inp k st =
     (case loopBody cv inp k st of
        Inl e \<Rightarrow> Inl e
      | Inr st' \<Rightarrow> if 444 \<le> k then finishRun st' else frameLoop cv inp (Suc k) st')"
proof -
  have "(444 < k + 1) = (444 \<le> k)" by auto
  then show ?thesis
    by (subst frameLoop.simps) (simp add: Max_framesToUse split: sum.splits)
qed

text \<open>What one pass through the body does to the master table.\<close>

lemma loopBody_skip:
  assumes "\<not> (k < length (vid_frames inp) \<and> k < 445)"
  shows "loopBody cv inp k st = Inr st"
  using assms by (auto simp: loopBody_def in_framesToUse)

lemma loopBody_Inl:
  assumes "k < length (vid_frames inp)" "k < 445" "processedFrameAt cv inp k = Inl e"
  shows "loopBody cv inp k st = Inl e"
  using assms by (simp add: loopBody_def in_framesToUse)

lemma loopBody_not_good:
  assumes "k < length (vid_frames inp)" "k < 445" "processedFrameAt cv inp k = Inr fr"
    and "\<not> foundGoodMatch fr"
  shows "loopBody cv inp k st = Inr (writeFrames fr (origFrame fr) (origFrame fr) st)"
  using assms by (simp add: loopBody_def in_framesToUse)

lemma loopBody_good:
  assumes "k < length (vid_frames inp)" "k < 445" "processedFrameAt cv inp k = Inr fr"
    and "foundGoodMatch fr" and "loopBody cv inp k st = Inr st'"
  shows "\<exists>heatmap mapped.
           createHeatmap cv (masterRows st @ mappedPoints fr) k (refImgColor (gazeMapper inp))
             = Inr heatmap
           \<and> st' = writeFrames fr heatmap mapped
                     (st\<lparr>gazeData_master := Some (masterRows st @ mappedPoints fr)\<rparr>)"
  using assms
  by (auto simp: loopBody_def in_framesToUse masterRows_def mappedPoints_def Let_def
           split: option.splits sum.splits)

lemma masterRows_writeFrames [simp]:
  "masterRows (writeFrames fr a b st) = masterRows st"
  "gazeData_master (writeFrames fr a b st) = gazeData_master st"
  by (simp_all add: masterRows_def writeFrames_def)

lemma loopBody_master:
  assumes "loopBody cv inp k st = Inr st'"
  shows "if k < lastFrame inp
         then \<exists>fr. processedFrameAt cv inp k = Inr fr
                \<and> masterRows st' = masterRows st @ (if foundGoodMatch fr then mappedPoints fr else [])
                \<and> (gazeData_master st' = None
                      \<longleftrightarrow> gazeData_master st = None \<and> \<not> foundGoodMatch fr)
         else st' = st"
proof (cases "k < lastFrame inp")
  case False
  then have "\<not> (k < length (vid_frames inp) \<and> k < 445)"
    by (auto simp: lastFrame_def)
  from loopBody_skip [OF this] assms False show ?thesis by simp
next
  case True
  then have k: "k < length (vid_frames inp)" "k < 445"
    by (auto simp: lastFrame_def)
  show ?thesis
  proof (cases "processedFrameAt cv inp k")
    case (Inl e)
    from loopBody_Inl [OF k Inl] assms show ?thesis by simp
  next
    case (Inr fr)
    show ?thesis
    proof (cases "foundGoodMatch fr")
      case False
      from loopBody_not_good [OF k Inr False] assms True Inr False show ?thesis
        by auto
    next
      case good: True
      from loopBody_good [OF k Inr good assms] obtain heatmap mapped where
        "st' = writeFrames fr heatmap mapped
                     (st\<lparr>gazeData_master := Some (masterRows st @ mappedPoints fr)\<rparr>)"
        by blast
      with True Inr good show ?thesis
        by (simp add: masterRows_def)
    qed
  qed
qed

lemma finishRun_Inr:
  "finishRun st = Inr out \<Longrightarrow>
     gazeData_master st \<noteq> None \<and> gazeData_master_tsv out = Some (masterRows st)
     \<and> masterRows out = masterRows st \<and> vid_isOpened out = False"
  by (auto simp: finishRun_def masterRows_def Let_def split: option.splits)

lemma finishRun_unbound:
  "gazeData_master st = None \<Longrightarrow> finishRun st = Inl UnboundLocalError"
  by (simp add: finishRun_def)

lemma upt_lastFrame_step:
  "k < lastFrame inp \<Longrightarrow> [k..<lastFrame inp] = k # [Suc k..<lastFrame inp]"
  by (simp add: upt_conv_Cons)

lemma frameLoop_master:
  "frameLoop cv inp k st = Inr out \<Longrightarrow> k \<le> 444 \<Longrightarrow>
     \<exists>frs. map (processedFrameAt cv inp) [k..<lastFrame inp] = map Inr frs
       \<and> gazeData_master_tsv out
            = Some (masterRows st @ concat (map mappedPoints (filter foundGoodMatch frs)))"
proof (induction "444 - k" arbitrary: k st)
  case 0
  then have k: "k = 444" by simp
  from "0.prems"(1) obtain st' where
    body: "loopBody cv inp k st = Inr st'" and fin: "finishRun st' = Inr out"
    by (subst (asm) frameLoop_unfold) (auto simp: k split: sum.splits)
  note m = loopBody_master [OF body]
  show ?case
  proof (cases "k < lastFrame inp")
    case True
    then have l: "[k..<lastFrame inp] = [k]"
      by (simp add: k lastFrame_def min_def upt_conv_Cons split: if_splits)
    from m True obtain fr where
      "processedFrameAt cv inp k = Inr fr"
      "masterRows st' = masterRows st @ (if foundGoodMatch fr then mappedPoints fr else [])"
      by auto
    with finishRun_Inr [OF fin] l show ?thesis
      by (intro exI [of _ "[fr]"]) simp
  next
    case False
    with m have "st' = st" by simp
    with finishRun_Inr [OF fin] False show ?thesis
      by (intro exI [of _ "[]"]) simp
  qed
next
  case (Suc n)
  then have k: "k < 444" by simp
  from Suc.prems(1) k obtain st' where
    body: "loopBody cv inp k st = Inr st'" and rest: "frameLoop cv inp (Suc k) st' = Inr out"
    by (subst (asm) frameLoop_unfold) (auto split: sum.splits)
  from Suc.hyps(2) have n: "n = 444 - Suc k" by simp
  from Suc.hyps(1) [OF n rest] k obtain frs where
    frs: "map (processedFrameAt cv inp) [Suc k..<lastFrame inp] = map Inr frs"
    and out: "gazeData_master_tsv out
            = Some (masterRows st' @ concat (map mappedPoints (filter foundGoodMatch frs)))"
    by auto
  note m = loopBody_master [OF body]
  show ?case
  proof (cases "k < lastFrame inp")
    case True
    from m True obtain fr where
      fr: "processedFrameAt cv inp k = Inr fr"
      "masterRows st' = masterRows st @ (if foundGoodMatch fr then mappedPoints fr else [])"
      by auto
    with frs out upt_lastFrame_step [OF True] show ?thesis
      by (intro exI [of _ "fr # frs"]) simp
  next
    case False
    with m have same: "st' = st" by simp
    from False have e: "[k..<lastFrame inp] = []" "[Suc k..<lastFrame inp] = []"
      by simp_all
    from frs have "frs = []"
      unfolding e by simp
    with out same show ?thesis
      unfolding e by (intro exI [of _ "[]"]) simp
  qed
qed

lemma frameLoop_past_end:
  "lastFrame inp \<le> k \<Longrightarrow> k \<le> 444 \<Longrightarrow> frameLoop cv inp k st = finishRun st"
proof (induction "444 - k" arbitrary: k)
  case 0
  then have b: "loopBody cv inp k st = Inr st"
    by (intro loopBody_skip) (auto simp: lastFrame_def)
  from 0 have k: "444 \<le> k" by simp
  show ?case
    by (subst frameLoop_unfold) (simp add: b k)
next
  case (Suc n)
  then have b: "loopBody cv inp k st = Inr st"
    by (intro loopBody_skip) (auto simp: lastFrame_def)
  from Suc have r: "frameLoop cv inp (Suc k) st = finishRun st"
    by (intro Suc.hyps(1)) auto
  from Suc.hyps(2) have k: "\<not> 444 \<le> k" by simp
  show ?case
    by (subst frameLoop_unfold) (simp add: b k r)
qed

lemma loopBody_raises:
  assumes "loopBody cv inp k st = Inl e"
    and "\<forall>j fr. j < lastFrame inp \<and> processedFrameAt cv inp j = Inr fr \<longrightarrow> \<not> foundGoodMatch fr"
  shows "k < lastFrame inp \<and> processedFrameAt cv inp k = Inl e"
proof -
  have k: "k < length (vid_frames inp)" "k < 445"
    using assms(1) loopBody_skip [of k inp cv st] by auto
  then have l: "k < lastFrame inp"
    by (simp add: lastFrame_def)
  show ?thesis
  proof (cases "processedFrameAt cv inp k")
    case (Inl e')
    from loopBody_Inl [OF k Inl] assms(1) Inl l show ?thesis by simp
  next
    case (Inr fr)
    with assms(2) l have "\<not> foundGoodMatch fr" by blast
    from loopBody_not_good [OF k Inr this] assms(1) show ?thesis by simp
  qed
qed

lemma frameLoop_no_good:
  assumes "gazeData_master st = None" and "k \<le> 444"
    and "\<forall>j fr. j < lastFrame inp \<and> processedFrameAt cv inp j = Inr fr \<longrightarrow> \<not> foundGoodMatch fr"
  shows "(\<exists>e. frameLoop cv inp k st = Inl e)
       \<and> ((\<forall>j. j < lastFrame inp \<longrightarrow> (\<exists>fr. processedFrameAt cv inp j = Inr fr)) \<longrightarrow>
            frameLoop cv inp k st = Inl UnboundLocalError)"
  using assms(1,2)
proof (induction "444 - k" arbitrary: k st)
  case 0
  then have k: "444 \<le> k" by simp
  show ?case
  proof (cases "loopBody cv inp k st")
    case (Inl e)
    from loopBody_raises [OF Inl assms(3)] Inl show ?thesis
      by (subst (1 2) frameLoop_unfold) auto
  next
    case (Inr st')
    from loopBody_master [OF Inr] assms(3) "0.prems"(1) have "gazeData_master st' = None"
      by (auto split: if_splits)
    then have "finishRun st' = Inl UnboundLocalError"
      by (rule finishRun_unbound)
    with Inr k show ?thesis
      by (subst (1 2) frameLoop_unfold) simp
  qed
next
  case (Suc n)
  then have k: "\<not> 444 \<le> k" by simp
  show ?case
  proof (cases "loopBody cv inp k st")
    case (Inl e)
    from loopBody_raises [OF Inl assms(3)] Inl show ?thesis
      by (subst (1 2) frameLoop_unfold) auto
  next
    case (Inr st')
    from loopBody_master [OF Inr] assms(3) Suc.prems(1) have none: "gazeData_master st' = None"
      by (auto split: if_splits)
    from Suc.hyps(2) Suc.prems(2) have "n = 444 - Suc k" "Suc k \<le> 444"
      by simp_all
    from Suc.hyps(1) [OF this(1) none this(2)] Inr k show ?thesis
      by (subst (1 2) frameLoop_unfold) simp
  qed
qed

text \<open>
  Claim C4. The master table only grows, by appending: one pass through the loop body
  leaves its rows as a prefix of the new rows, and a frame whose result has
  \<open>foundGoodMatch\<close> false appends nothing. After a run that completes, the table
  written at the end is the concatenation, in frame order, of the mapped gaze points
  of exactly the processed frames with \<open>foundGoodMatch\<close> true, so its length is the
  sum of their counts.
\<close>

theorem gaze_log_accumulates:
  "(\<forall>out. vid_opened inp \<and> processRecording cv inp = Inr out \<longrightarrow>
      (\<exists>frs. map (processedFrameAt cv inp) [0..<lastFrame inp] = map Inr frs
         \<and> gazeData_master_tsv out
              = Some (concat (map mappedPoints (filter foundGoodMatch frs)))
         \<and> length (concat (map mappedPoints (filter foundGoodMatch frs)))
              = sum_list (map (\<lambda>fr. length (mappedPoints fr)) (filter foundGoodMatch frs))))
   \<and> (\<forall>k st st'. loopBody cv inp k st = Inr st' \<longrightarrow>
         (\<exists>new. masterRows st' = masterRows st @ new
            \<and> (\<forall>fr. processedFrameAt cv inp k = Inr fr \<and> \<not> foundGoodMatch fr \<longrightarrow> new = [])))"
proof (intro conjI allI impI)
  fix out
  assume a: "vid_opened inp \<and> processRecording cv inp = Inr out"
  then have o: "vid_opened inp" and r: "processRecording cv inp = Inr out"
    by simp_all
  have "vid_isOpened (openWriters inp)"
    using o by (simp add: openWriters_def Let_def)
  with r have "frameLoop cv inp 0 (openWriters inp) = Inr out"
    by (simp add: processRecording_def Let_def)
  from frameLoop_master [OF this] obtain frs where
    frs: "map (processedFrameAt cv inp) [0..<lastFrame inp] = map Inr frs"
    and tsv: "gazeData_master_tsv out
            = Some (masterRows (openWriters inp)
                      @ concat (map mappedPoints (filter foundGoodMatch frs)))"
    by auto
  have "masterRows (openWriters inp) = []"
    by (simp add: masterRows_def openWriters_def Let_def)
  with frs tsv show "\<exists>frs. map (processedFrameAt cv inp) [0..<lastFrame inp] = map Inr frs
         \<and> gazeData_master_tsv out
              = Some (concat (map mappedPoints (filter foundGoodMatch frs)))
         \<and> length (concat (map mappedPoints (filter foundGoodMatch frs)))
              = sum_list (map (\<lambda>fr. length (mappedPoints fr)) (filter foundGoodMatch frs))"
    by (intro exI [of _ frs]) (simp add: length_concat comp_def)
next
  fix k st st'
  assume body: "loopBody cv inp k st = Inr st'"
  note m = loopBody_master [OF body]
  show "\<exists>new. masterRows st' = masterRows st @ new
            \<and> (\<forall>fr. processedFrameAt cv inp k = Inr fr \<and> \<not> foundGoodMatch fr \<longrightarrow> new = [])"
  proof (cases "k < lastFrame inp")
    case True
    with m obtain fr where
      "processedFrameAt cv inp k = Inr fr"
      "masterRows st' = masterRows st @ (if foundGoodMatch fr then mappedPoints fr else [])"
      by auto
    then show ?thesis
      by (intro exI [of _ "if foundGoodMatch fr then mappedPoints fr else []"]) auto
  next
    case False
    with m have "st' = st" by simp
    then show ?thesis by simp
  qed
qed

theorem gaze_log_accumulates_witness:
  "vid_opened ex_run
   \<and> map (processedFrameAt ex_cv ex_run) [0..<lastFrame ex_run]
       = map Inr [\<lparr>frameNum = 0, origFrame = ex_image, frame_ts = 7,
                    gazeFrame = ex_image\<lparr>pixels := [1, 2, 3, 10]\<rparr>,
                    foundGoodMatch = True, camPosition = Some (0, 0, 1),
                    camOrientation = Some (0, 0, 0),
                    ref2frame_2Dtrans = Some [1, 0, 0, 0, 1, 0, 0, 0, 1],
                    frame2ref_2Dtrans = Some [1, 0, 0, 0, 1, 0, 0, 0, 1],
                    gazeData = Some [ex_row 0 0 320 360]\<rparr>,
                  rawFrameOnly 1 ex_blank 8]
   \<and> (\<exists>out. processRecording ex_cv ex_run = Inr out
          \<and> gazeData_master_tsv out = Some [ex_row 0 0 320 360])"
proof -
  let ?fr0 = "\<lparr>frameNum = 0, origFrame = ex_image, frame_ts = 7,
                    gazeFrame = ex_image\<lparr>pixels := [1, 2, 3, 10]\<rparr>,
                    foundGoodMatch = True, camPosition = Some (0, 0, 1),
                    camOrientation = Some (0, 0, 0),
                    ref2frame_2Dtrans = Some [1, 0, 0, 0, 1, 0, 0, 0, 1],
                    frame2ref_2Dtrans = Some [1, 0, 0, 0, 1, 0, 0, 0, 1],
                    gazeData = Some [ex_row 0 0 320 360]\<rparr>"
  have o: "vid_opened ex_run"
    by (simp add: ex_run_def ex_session_def)
  have l: "lastFrame ex_run = 2" "length (vid_frames ex_run) = 2"
    by (simp_all add: lastFrame_def ex_run_def ex_session_def)
  have p0: "processedFrameAt ex_cv ex_run 0 = Inr ?fr0"
    by (simp add: processedFrameAt_def ex_run_def ex_session_def ex_cv_def ex_mapper_def
          ex_mapper_by_image_def ex_gaze2_def ex_gaze_def ex_image_def ex_row_def
          processFrame_def sufficientMatches_def drawGazePts_def py_int_def)
  have p1: "processedFrameAt ex_cv ex_run 1 = Inr (rawFrameOnly 1 ex_blank 8)"
    by (simp add: processedFrameAt_def ex_run_def ex_session_def ex_cv_def ex_mapper_def
          ex_mapper_by_image_def ex_blank_def
          processFrame_def sufficientMatches_def rawFrameOnly_def Let_def)
  from p1 have p1': "processedFrameAt ex_cv ex_run (Suc 0)
                       = Inr (rawFrameOnly (Suc 0) ex_blank 8)"
    by simp
  have u: "[0..<2] = [0, Suc 0]"
    by (simp add: upt_conv_Cons)
  have frames: "map (processedFrameAt ex_cv ex_run) [0..<lastFrame ex_run]
                  = map Inr [?fr0, rawFrameOnly 1 ex_blank 8]"
    by (simp add: l u p0 p1')
  have hm: "createHeatmap ex_cv [ex_row 0 0 320 360] 0 (refImgColor (gazeMapper ex_run))
              = Inr (refImgColor (gazeMapper ex_run))"
    by (simp add: createHeatmap_def)
  have pj: "\<And>a b c. projectImage2D (gazeMapper ex_run) a b c = Inr a"
    by (simp add: ex_run_def ex_session_def ex_mapper_by_image_def ex_mapper_def)
  have ow: "gazeData_master (openWriters ex_run) = None"
    by (simp add: openWriters_def Let_def)
  have b0: "loopBody ex_cv ex_run 0 (openWriters ex_run)
              = Inr (writeFrames ?fr0 (refImgColor (gazeMapper ex_run)) ex_image
                       ((openWriters ex_run)\<lparr>gazeData_master := Some [ex_row 0 0 320 360]\<rparr>))"
    by (simp add: loopBody_def in_framesToUse l p0 hm pj ow Let_def)
  have b1: "\<And>st. loopBody ex_cv ex_run (Suc 0) st
              = Inr (writeFrames (rawFrameOnly 1 ex_blank 8) ex_blank ex_blank st)"
    using p1 by (simp add: loopBody_def in_framesToUse l rawFrameOnly_def)
  have r: "processRecording ex_cv ex_run = frameLoop ex_cv ex_run 0 (openWriters ex_run)"
    using o by (simp add: processRecording_def Let_def openWriters_def)
  have past: "\<And>st. frameLoop ex_cv ex_run (Suc (Suc 0)) st = finishRun st"
    by (rule frameLoop_past_end) (simp_all add: l)
  have s1: "\<And>st. frameLoop ex_cv ex_run (Suc 0) st
              = finishRun (writeFrames (rawFrameOnly 1 ex_blank 8) ex_blank ex_blank st)"
    by (subst frameLoop_unfold) (simp add: b1 past)
  have s0: "frameLoop ex_cv ex_run 0 (openWriters ex_run)
              = finishRun (writeFrames (rawFrameOnly 1 ex_blank 8) ex_blank ex_blank
                  (writeFrames ?fr0 (refImgColor (gazeMapper ex_run)) ex_image
                       ((openWriters ex_run)\<lparr>gazeData_master := Some [ex_row 0 0 320 360]\<rparr>)))"
    by (subst frameLoop_unfold) (simp add: b0 s1)
  have "\<exists>out. processRecording ex_cv ex_run = Inr out"
    unfolding r s0 by (simp add: finishRun_def)
  then obtain out where run: "processRecording ex_cv ex_run = Inr out"
    by blast
  from gaze_log_accumulates [of ex_run ex_cv, THEN conjunct1, rule_format, of out] o run
  obtain frs where
    f: "map (processedFrameAt ex_cv ex_run) [0..<lastFrame ex_run] = map Inr frs"
    and t: "gazeData_master_tsv out = Some (concat (map mappedPoints (filter foundGoodMatch frs)))"
    by blast
  from trans [OF f [symmetric] frames] have "frs = [?fr0, rawFrameOnly 1 ex_blank 8]"
    by (simp only: inj_map_eq_map [OF inj_Inr])
  with t have "gazeData_master_tsv out = Some [ex_row 0 0 320 360]"
    by (simp add: mappedPoints_def rawFrameOnly_def)
  with o frames run show ?thesis
    by blast
qed

text \<open>
  Claim C9. When the video has opened and no processed frame has a good match, the
  run does not complete: it ends in an exception. If every processed frame returns
  its (raw-frame) result, that exception is the \<^verbatim>\<open>UnboundLocalError\<close> of the write of
  the master table after the last frame, the local never having been bound.
\<close>

theorem no_good_match_run_fails:
  assumes opened: "vid_opened inp"
    and nogood: "\<forall>k fr. k < lastFrame inp \<and> processedFrameAt cv inp k = Inr fr
                   \<longrightarrow> \<not> foundGoodMatch fr"
  shows "(\<exists>e. processRecording cv inp = Inl e)
       \<and> ((\<forall>k. k < lastFrame inp \<longrightarrow> (\<exists>fr. processedFrameAt cv inp k = Inr fr)) \<longrightarrow>
            processRecording cv inp = Inl UnboundLocalError)"
proof -
  have st0: "gazeData_master (openWriters inp) = None" "vid_isOpened (openWriters inp)"
    using opened by (simp_all add: openWriters_def Let_def)
  then have "processRecording cv inp = frameLoop cv inp 0 (openWriters inp)"
    by (simp add: processRecording_def Let_def)
  with frameLoop_no_good [OF st0(1) _ nogood, of 0] show ?thesis
    by simp
qed

theorem no_good_match_run_fails_witness:
  "vid_opened ex_no_match
   \<and> lastFrame ex_no_match = 1
   \<and> processedFrameAt ex_cv ex_no_match 0 = Inr (rawFrameOnly 0 ex_image 7)
   \<and> processRecording ex_cv ex_no_match = Inl UnboundLocalError"
proof -
  have o: "vid_opened ex_no_match"
    by (simp add: ex_no_match_def ex_session_def)
  have l: "lastFrame ex_no_match = 1"
    by (simp add: lastFrame_def ex_no_match_def ex_session_def)
  have p: "processedFrameAt ex_cv ex_no_match 0 = Inr (rawFrameOnly 0 ex_image 7)"
    by (simp add: processedFrameAt_def ex_no_match_def ex_session_def ex_cv_def ex_mapper_def
          processFrame_def sufficientMatches_def rawFrameOnly_def)
  have ng: "\<forall>k fr. k < lastFrame ex_no_match \<and> processedFrameAt ex_cv ex_no_match k = Inr fr
              \<longrightarrow> \<not> foundGoodMatch fr"
    using p by (auto simp: l rawFrameOnly_def)
  have al: "\<forall>k. k < lastFrame ex_no_match \<longrightarrow> (\<exists>fr. processedFrameAt ex_cv ex_no_match k = Inr fr)"
    using p by (simp add: l)
  from no_good_match_run_fails [OF o ng] al
  have "processRecording ex_cv ex_no_match = Inl UnboundLocalError"
    by blast
  with o l p show ?thesis by simp
qed

subsection \<open>What the reference-space summary receives\<close>

lemma processFrame_origFrame:
  "processFrame cv k frame m gaze ts = Inr fr \<Longrightarrow> origFrame fr = frame"
  by (auto simp: processFrame_def Let_def split: if_splits sum.splits prod.splits)

lemma processFrame_not_good:
  "processFrame cv k frame m gaze ts = Inr fr \<Longrightarrow> \<not> foundGoodMatch fr \<Longrightarrow>
     fr = rawFrameOnly k frame (ts ! k)"
  by (auto simp: processFrame_def rawFrameOnly_def Let_def
           split: if_splits sum.splits prod.splits)

text \<open>
  Claim C10. The writer of the reference-space summary is opened with the pixel
  dimensions of the reference stimulus. For a processed frame without a good match
  the image handed to it is the original frame, that is the undistorted camera frame,
  the same image that goes to the three writers opened at the size of the video. Only
  for a good-match frame is the image handed to it the heatmap that \<open>createHeatmap\<close>
  returns for the reference image. A pass through the loop body never changes the
  frame size of the writer.
\<close>

theorem summaryRef_gets_camera_frame:
  assumes k: "k < length (vid_frames inp)" "k < 445"
    and fr: "processedFrameAt cv inp k = Inr fr"
  shows "vw_frameSize (vidOut_summaryRef (openWriters inp))
           = (shape1 (refStim inp), shape0 (refStim inp))
       \<and> origFrame fr = undistort cv (camera_matrix inp) (dist_coefs inp) (vid_frames inp ! k)
       \<and> (\<not> foundGoodMatch fr \<longrightarrow>
            loopBody cv inp k st =
              Inr (st\<lparr>vidOut_orig := vw_write (vidOut_orig st) (origFrame fr),
                      vidOut_gaze := vw_write (vidOut_gaze st) (origFrame fr),
                      vidOut_summaryRef := vw_write (vidOut_summaryRef st) (origFrame fr),
                      vidOut_summaryWorld := vw_write (vidOut_summaryWorld st) (origFrame fr)\<rparr>))
       \<and> (\<forall>st'. loopBody cv inp k st = Inr st' \<longrightarrow>
            vw_frameSize (vidOut_summaryRef st') = vw_frameSize (vidOut_summaryRef st)
            \<and> (\<exists>img. vw_written (vidOut_summaryRef st') = vw_written (vidOut_summaryRef st) @ [img]
                  \<and> (if foundGoodMatch fr
                      then createHeatmap cv (masterRows st @ mappedPoints fr) k
                             (refImgColor (gazeMapper inp)) = Inr img
                      else img = origFrame fr)))"
proof (intro conjI impI allI)
  show "vw_frameSize (vidOut_summaryRef (openWriters inp))
           = (shape1 (refStim inp), shape0 (refStim inp))"
    by (simp add: openWriters_def Let_def)
  show o: "origFrame fr
             = undistort cv (camera_matrix inp) (dist_coefs inp) (vid_frames inp ! k)"
    using fr by (auto simp: processedFrameAt_def Let_def dest: processFrame_origFrame)
  {
    assume ng: "\<not> foundGoodMatch fr"
    from fr have "fr = rawFrameOnly k (undistort cv (camera_matrix inp) (dist_coefs inp)
                                         (vid_frames inp ! k))
                         (frame_timestamps inp ! k)"
      using ng by (auto simp: processedFrameAt_def Let_def dest: processFrame_not_good)
    then have g: "gazeFrame fr = origFrame fr"
      by (simp add: rawFrameOnly_def)
    show "loopBody cv inp k st =
              Inr (st\<lparr>vidOut_orig := vw_write (vidOut_orig st) (origFrame fr),
                      vidOut_gaze := vw_write (vidOut_gaze st) (origFrame fr),
                      vidOut_summaryRef := vw_write (vidOut_summaryRef st) (origFrame fr),
                      vidOut_summaryWorld := vw_write (vidOut_summaryWorld st) (origFrame fr)\<rparr>)"
      unfolding loopBody_not_good [OF k fr ng] by (simp add: writeFrames_def g)
  }
  fix st'
  assume body: "loopBody cv inp k st = Inr st'"
  have w: "\<exists>img. st' = writeFrames fr img (origFrame fr) st \<and> \<not> foundGoodMatch fr
                   \<and> img = origFrame fr
             \<or> (\<exists>mapped. foundGoodMatch fr
                   \<and> createHeatmap cv (masterRows st @ mappedPoints fr) k
                        (refImgColor (gazeMapper inp)) = Inr img
                   \<and> st' = writeFrames fr img mapped
                            (st\<lparr>gazeData_master := Some (masterRows st @ mappedPoints fr)\<rparr>))"
  proof (cases "foundGoodMatch fr")
    case True
    from loopBody_good [OF k fr True body] obtain heatmap mapped where
      "createHeatmap cv (masterRows st @ mappedPoints fr) k (refImgColor (gazeMapper inp))
         = Inr heatmap"
      "st' = writeFrames fr heatmap mapped
               (st\<lparr>gazeData_master := Some (masterRows st @ mappedPoints fr)\<rparr>)"
      by blast
    with True show ?thesis
      by (intro exI [of _ heatmap] disjI2 exI [of _ mapped]) simp
  next
    case False
    from loopBody_not_good [OF k fr False, of st] body
    have "st' = writeFrames fr (origFrame fr) (origFrame fr) st"
      by simp
    with False show ?thesis
      by (intro exI [of _ "origFrame fr"] disjI1) simp
  qed
  from w show "vw_frameSize (vidOut_summaryRef st') = vw_frameSize (vidOut_summaryRef st)"
    by (auto simp: writeFrames_def vw_write_def)
  from w show "\<exists>img. vw_written (vidOut_summaryRef st') = vw_written (vidOut_summaryRef st) @ [img]
                  \<and> (if foundGoodMatch fr
                      then createHeatmap cv (masterRows st @ mappedPoints fr) k
                             (refImgColor (gazeMapper inp)) = Inr img
                      else img = origFrame fr)"
    by (auto simp: writeFrames_def vw_write_def)
qed

theorem summaryRef_gets_camera_frame_witness:
  "vw_frameSize (vidOut_summaryRef (openWriters ex_no_match)) = (300, 200)
   \<and> processedFrameAt ex_cv ex_no_match 0 = Inr (rawFrameOnly 0 ex_image 7)
   \<and> loopBody ex_cv ex_no_match 0 (openWriters ex_no_match) =
       Inr \<lparr>vid_isOpened = True, gazeData_master = None,
            vidOut_orig = \<lparr>vw_frameSize = (640, 480), vw_written = [ex_image]\<rparr>,
            vidOut_gaze = \<lparr>vw_frameSize = (640, 480), vw_written = [ex_image]\<rparr>,
            vidOut_summaryRef = \<lparr>vw_frameSize = (300, 200), vw_written = [ex_image]\<rparr>,
            vidOut_summaryWorld = \<lparr>vw_frameSize = (640, 480), vw_written = [ex_image]\<rparr>,
            gazeData_master_tsv = None\<rparr>
   \<and> (shape1 ex_image, shape0 ex_image) = (640, 480)"
proof -
  have p: "processedFrameAt ex_cv ex_no_match 0 = Inr (rawFrameOnly 0 ex_image 7)"
    by (simp add: processedFrameAt_def ex_no_match_def ex_session_def ex_cv_def ex_mapper_def
          processFrame_def sufficientMatches_def rawFrameOnly_def)
  have l: "0 < length (vid_frames ex_no_match)"
    by (simp add: ex_no_match_def ex_session_def)
  have st: "openWriters ex_no_match =
       \<lparr>vid_isOpened = True, gazeData_master = None,
            vidOut_orig = \<lparr>vw_frameSize = (640, 480), vw_written = []\<rparr>,
            vidOut_gaze = \<lparr>vw_frameSize = (640, 480), vw_written = []\<rparr>,
            vidOut_summaryRef = \<lparr>vw_frameSize = (300, 200), vw_written = []\<rparr>,
            vidOut_summaryWorld = \<lparr>vw_frameSize = (640, 480), vw_written = []\<rparr>,
            gazeData_master_tsv = None\<rparr>"
    by (simp add: openWriters_def ex_no_match_def ex_session_def ex_mapper_def)
  have ng: "\<not> foundGoodMatch (rawFrameOnly 0 ex_image 7)"
    "origFrame (rawFrameOnly 0 ex_image 7) = ex_image"
    by (simp_all add: rawFrameOnly_def)
  from summaryRef_gets_camera_frame [OF l _ p, of "openWriters ex_no_match"] ng p
  show ?thesis
    by (simp add: st vw_write_def ex_image_def)
qed

subsection \<open>Running processFrame twice\<close>

lemma drawGazePts_store_eq:
  "gf < length h \<Longrightarrow>
     drawGazePts_store cv gazeData_df gf h = h[gf := drawGazePts cv gazeData_df (h ! gf)]"
proof -
  have "gf < length h \<Longrightarrow>
     foldl (\<lambda>h' row.
        if df_label row = M
        then h'[gf := circle cv (h' ! gf)
                        (py_int (frame_gazeX row), py_int (frame_gazeY row)) 10 (96, 52, 234)]
        else h'[gf := circle cv (h' ! gf)
                        (py_int (frame_gazeX row), py_int (frame_gazeY row)) 8 (168, 231, 86)])
      h rows
     = h[gf := foldl (\<lambda>img row.
        if df_label row = M
        then circle cv img (py_int (frame_gazeX row), py_int (frame_gazeY row)) 10 (96, 52, 234)
        else circle cv img (py_int (frame_gazeX row), py_int (frame_gazeY row)) 8 (168, 231, 86))
      (h ! gf) rows]" for M rows
    by (induction rows arbitrary: h) simp_all
  then show "gf < length h \<Longrightarrow> ?thesis"
    unfolding drawGazePts_store_def drawGazePts_def .
qed

lemma processFrame_store_refines:
  assumes "frame < length h"
  shows "case processFrame_store cv k frame m gaze ts h of
           Inl e \<Rightarrow> processFrame cv k (h ! frame) m gaze ts = Inl e
         | Inr (fr, h') \<Rightarrow>
             processFrame cv k (h ! frame) m gaze ts = Inr (load_frames h' fr)
             \<and> take (length h) h' = h
             \<and> length h \<le> origFrame fr \<and> origFrame fr < length h'
             \<and> length h \<le> gazeFrame fr \<and> gazeFrame fr < length h'"
  using assms
  by (auto simp: processFrame_store_def processFrame_def load_frames_def copy_array_def
        drawGazePts_store_eq Let_def nth_append
        split: sum.splits prod.splits)

text \<open>
  Claim C8. \<open>processFrame\<close> run twice in a row on the same frame array, gaze samples,
  mapper and timestamps (the mapper answering equal calls equally, which is the
  solver determinism the claim sets aside) returns the same \<open>foundGoodMatch\<close> flag,
  the same mapped gaze data and an overlay with the same pixel content; indeed the
  two dictionaries are equal once their arrays are read from the store. The first
  run leaves the frame array unchanged, since it draws only on copies, and the second
  run leaves the overlay of the first intact.
\<close>

theorem processFrame_twice_same_result:
  assumes fr: "frame < length h"
    and run1: "processFrame_store cv k frame m gaze ts h = Inr (fr1, h1)"
  shows "\<exists>fr2 h2. processFrame_store cv k frame m gaze ts h1 = Inr (fr2, h2)
           \<and> foundGoodMatch fr2 = foundGoodMatch fr1
           \<and> gazeData fr2 = gazeData fr1
           \<and> h2 ! gazeFrame fr2 = h1 ! gazeFrame fr1
           \<and> load_frames h2 fr2 = load_frames h1 fr1
           \<and> h1 ! frame = h ! frame
           \<and> h2 ! gazeFrame fr1 = h1 ! gazeFrame fr1"
proof -
  from processFrame_store_refines [OF fr, of cv k m gaze ts] run1
  have v1: "processFrame cv k (h ! frame) m gaze ts = Inr (load_frames h1 fr1)"
    and t1: "take (length h) h1 = h"
    and g1: "gazeFrame fr1 < length h1"
    by simp_all
  from t1 have len: "length h \<le> length h1"
    by (metis length_take min.cobounded1 min.commute)
  from t1 fr have same: "h1 ! frame = h ! frame"
    by (metis nth_take)
  from fr len have fr': "frame < length h1"
    by simp
  note r2 = processFrame_store_refines [OF fr', of cv k m gaze ts]
  show ?thesis
  proof (cases "processFrame_store cv k frame m gaze ts h1")
    case (Inl e)
    with r2 v1 same show ?thesis by simp
  next
    case (Inr res)
    obtain fr2 h2 where res: "res = (fr2, h2)"
      by (cases res)
    from r2 Inr res have v2: "processFrame cv k (h1 ! frame) m gaze ts = Inr (load_frames h2 fr2)"
      and t2: "take (length h1) h2 = h1"
      by simp_all
    from v1 v2 same have eq: "load_frames h2 fr2 = load_frames h1 fr1"
      by simp
    then have "foundGoodMatch fr2 = foundGoodMatch fr1" "gazeData fr2 = gazeData fr1"
      "h2 ! gazeFrame fr2 = h1 ! gazeFrame fr1"
      by (simp_all add: load_frames_def)
    moreover from t2 g1 have "h2 ! gazeFrame fr1 = h1 ! gazeFrame fr1"
      by (metis nth_take)
    ultimately show ?thesis
      using Inr res eq same by simp
  qed
qed

theorem processFrame_twice_same_result_witness:
  "processFrame_store ex_cv 0 0 (ex_mapper 5 11) ex_gaze [7] [ex_image]
     = Inr (ex_fr1, [ex_image, ex_image, ex_image\<lparr>pixels := [1, 2, 3, 10]\<rparr>])
   \<and> (\<exists>fr2 h2. processFrame_store ex_cv 0 0 (ex_mapper 5 11) ex_gaze [7]
                   [ex_image, ex_image, ex_image\<lparr>pixels := [1, 2, 3, 10]\<rparr>] = Inr (fr2, h2)
          \<and> foundGoodMatch fr2 = True
          \<and> gazeData fr2 = Some [ex_row 0 0 320 360]
          \<and> h2 ! gazeFrame fr2 = ex_image\<lparr>pixels := [1, 2, 3, 10]\<rparr>)"
proof -
  have run1: "processFrame_store ex_cv 0 0 (ex_mapper 5 11) ex_gaze [7] [ex_image]
     = Inr (ex_fr1, [ex_image, ex_image, ex_image\<lparr>pixels := [1, 2, 3, 10]\<rparr>])"
    by (simp add: processFrame_store_def copy_array_def drawGazePts_store_def
          sufficientMatches_def py_int_def ex_fr1_def
          ex_cv_def ex_mapper_def ex_image_def ex_gaze_def ex_row_def)
  have l: "0 < length [ex_image]"
    by simp
  from processFrame_twice_same_result [OF l run1] obtain fr2 h2 where
    "processFrame_store ex_cv 0 0 (ex_mapper 5 11) ex_gaze [7]
        [ex_image, ex_image, ex_image\<lparr>pixels := [1, 2, 3, 10]\<rparr>] = Inr (fr2, h2)"
    "foundGoodMatch fr2 = foundGoodMatch ex_fr1"
    "gazeData fr2 = gazeData ex_fr1"
    "h2 ! gazeFrame fr2
       = [ex_image, ex_image, ex_image\<lparr>pixels := [1, 2, 3, 10]\<rparr>] ! gazeFrame ex_fr1"
    by blast
  then have "processFrame_store ex_cv 0 0 (ex_mapper 5 11) ex_gaze [7]
        [ex_image, ex_image, ex_image\<lparr>pixels := [1, 2, 3, 10]\<rparr>] = Inr (fr2, h2)
      \<and> foundGoodMatch fr2 = True
      \<and> gazeData fr2 = Some [ex_row 0 0 320 360]
      \<and> h2 ! gazeFrame fr2 = ex_image\<lparr>pixels := [1, 2, 3, 10]\<rparr>"
    by (simp add: ex_fr1_def)
  with run1 show ?thesis
    by blast
qed

subsection \<open>Further properties of the code\<close>

text \<open>
  Property X1. The adjustment of lines 137 to 138 never removes a frame index:
  whatever frame count the video reports, \<^verbatim>\<open>framesToUse\<close> stays the 445 indices 0 to 444,
  so the loop counts to 445 also on a shorter video.
\<close>

theorem framesToUse_never_shortened:
  "framesToUse nframes = [0..<445] \<and> length (framesToUse nframes) = 445"
  using framesToUse_eq [of nframes] by simp

text \<open>
  Property X2. On a store that holds the frame, \<open>processFrame\<close> with explicit arrays
  raises exactly when the model on pictures raises, with the same exception, and
  otherwise returns the dictionary of the model on pictures once its two arrays are
  read from the new store; the arrays that existed before the call are unchanged.
\<close>

theorem processFrame_store_agrees:
  assumes "frame < length h"
  shows "(\<forall>e. processFrame_store cv k frame m gaze ts h = Inl e \<longrightarrow>
             processFrame cv k (h ! frame) m gaze ts = Inl e)
       \<and> (\<forall>fr h'. processFrame_store cv k frame m gaze ts h = Inr (fr, h') \<longrightarrow>
             processFrame cv k (h ! frame) m gaze ts = Inr (load_frames h' fr)
             \<and> take (length h) h' = h)"
  using processFrame_store_refines [OF assms, of cv k m gaze ts]
  by (auto split: sum.splits)

theorem processFrame_store_agrees_witness:
  "processFrame_store ex_cv 0 0 (ex_mapper 5 11) ex_gaze [7] [ex_image]
     = Inr (ex_fr1, [ex_image, ex_image, ex_image\<lparr>pixels := [1, 2, 3, 10]\<rparr>])
   \<and> processFrame ex_cv 0 ex_image (ex_mapper 5 11) ex_gaze [7]
     = Inr (load_frames [ex_image, ex_image, ex_image\<lparr>pixels := [1, 2, 3, 10]\<rparr>] ex_fr1)"
proof -
  have run: "processFrame_store ex_cv 0 0 (ex_mapper 5 11) ex_gaze [7] [ex_image]
     = Inr (ex_fr1, [ex_image, ex_image, ex_image\<lparr>pixels := [1, 2, 3, 10]\<rparr>])"
    by (simp add: processFrame_store_def copy_array_def drawGazePts_store_def
          sufficientMatches_def py_int_def ex_fr1_def
          ex_cv_def ex_mapper_def ex_image_def ex_gaze_def ex_row_def)
  have l: "0 < length [ex_image]"
    by simp
  from processFrame_store_agrees [OF l, of ex_cv 0 "ex_mapper 5 11" ex_gaze "[7]"] run
  show ?thesis
    by simp
qed

text \<open>
  Property X3. When the video did not open, the loop of line 164 is never entered:
  the run returns normally, with no frame written and no master table written.
\<close>

theorem processRecording_unopened_video:
  "\<not> vid_opened inp \<Longrightarrow>
     processRecording cv inp = Inr (openWriters inp)
     \<and> gazeData_master_tsv (openWriters inp) = None
     \<and> vw_written (vidOut_orig (openWriters inp)) = []"
  by (simp add: processRecording_def openWriters_def Let_def)

theorem processRecording_unopened_video_witness:
  "\<not> vid_opened (ex_no_match\<lparr>vid_opened := False\<rparr>)
   \<and> processRecording ex_cv (ex_no_match\<lparr>vid_opened := False\<rparr>)
       = Inr (openWriters (ex_no_match\<lparr>vid_opened := False\<rparr>))"
  using processRecording_unopened_video [of "ex_no_match\<lparr>vid_opened := False\<rparr>" ex_cv]
  by simp

text \<open>
  Property X4. With three or more rows up to the current frame and the density plot
  returning, \<open>createHeatmap\<close> raises \<^verbatim>\<open>UnboundLocalError\<close> when the first of these rows does
  not carry the smallest index label: line 419 then reads the previous point before
  any starting point has been set.
\<close>

theorem createHeatmap_trace_unbound:
  assumes three: "3 \<le> length (filter (\<lambda>r. worldFrame r \<le> k) master)"
    and kde: "kdeplot cv (cvtColor_BGR2RGB cv img) (shape1 img) (shape0 img)
                (map ref_gazeX (filter (\<lambda>r. worldFrame r \<le> k) master))
                (map ref_gazeY (filter (\<lambda>r. worldFrame r \<le> k) master)) = Inr density"
    and first: "df_label (hd (filter (\<lambda>r. worldFrame r \<le> k) master))
                  \<noteq> Min (set (map df_label (filter (\<lambda>r. worldFrame r \<le> k) master)))"
  shows "createHeatmap cv master k img = Inl UnboundLocalError"
proof -
  obtain r rest where upto: "filter (\<lambda>r. worldFrame r \<le> k) master = r # rest"
    using three by (cases "filter (\<lambda>r. worldFrame r \<le> k) master") auto
  from three have big: "\<not> length (filter (\<lambda>r. worldFrame r \<le> k) master) \<le> 2"
    by simp
  from first have "df_label r \<noteq> Min (set (map df_label (r # rest)))"
    unfolding upto by simp
  then have "addGazeTrace cv (Min (set (map df_label (r # rest)))) None density (r # rest)
               = Inl UnboundLocalError"
    by (simp add: Let_def)
  with big kde show ?thesis
    unfolding createHeatmap_def Let_def upto by simp
qed

theorem createHeatmap_trace_unbound_witness:
  "length (filter (\<lambda>r. worldFrame r \<le> 1) ex_unordered_log) = 3
   \<and> createHeatmap ex_cv ex_unordered_log 1 ex_ref = Inl UnboundLocalError"
proof -
  have f: "filter (\<lambda>r. worldFrame r \<le> 1) ex_unordered_log = ex_unordered_log"
    by (simp add: ex_unordered_log_def ex_row_def)
  have three: "3 \<le> length (filter (\<lambda>r. worldFrame r \<le> 1) ex_unordered_log)"
    unfolding f by (simp add: ex_unordered_log_def)
  have kde: "kdeplot ex_cv (cvtColor_BGR2RGB ex_cv ex_ref) (shape1 ex_ref) (shape0 ex_ref)
                (map ref_gazeX (filter (\<lambda>r. worldFrame r \<le> 1) ex_unordered_log))
                (map ref_gazeY (filter (\<lambda>r. worldFrame r \<le> 1) ex_unordered_log))
              = Inr ((cvtColor_BGR2RGB ex_cv ex_ref)
                       \<lparr>pixels := pixels (cvtColor_BGR2RGB ex_cv ex_ref) @ [3]\<rparr>)"
    unfolding f by (simp add: ex_cv_def ex_unordered_log_def)
  have first: "df_label (hd (filter (\<lambda>r. worldFrame r \<le> 1) ex_unordered_log))
                  \<noteq> Min (set (map df_label (filter (\<lambda>r. worldFrame r \<le> 1) ex_unordered_log)))"
    unfolding f by (simp add: ex_unordered_log_def ex_row_def)
  from createHeatmap_trace_unbound [OF three kde first] f show ?thesis
    by (simp add: ex_unordered_log_def)
qed

end
